theory Spec2Isabelle
  imports Complex_Main
begin

section \<open>Python values used by the services\<close>

text \<open>
  A Python \<open>str\<close> is a \<open>string\<close>, one list element per character, so that
  \<open>len\<close> is \<open>length\<close> and \<open>s[:n]\<close> is \<open>take n s\<close>. The value that \<open>json.loads\<close>
  returns is a \<open>json\<close>; a \<open>dict\<close> keeps its items in insertion order.
\<close>

datatype json =
    JNull
  | JBool bool
  | JInt int
  | JFloat real
  | JString string
  | JArray "json list"
  | JObject "(string \<times> json) list"

text \<open>
  The exceptions the services meet: \<open>json.JSONDecodeError\<close>, the only one that
  \<open>_parse_json_response\<close> catches; \<open>RecursionError\<close> and \<open>ValueError\<close>, which
  \<open>json.loads\<close> raises on arrays nested too deep and on integer literals with too many
  digits; \<open>IndexError\<close> and \<open>TypeError\<close> of the interpreter; and any fault of a provider
  (LLM, retriever, vector store), which carries its message.
\<close>

datatype exn =
    JSONDecodeError
  | RecursionError
  | ValueError
  | IndexError
  | TypeError
  | ProviderFault string

datatype message = SystemMessage string | HumanMessage string | AIMessage string

type_synonym llm = "message list \<Rightarrow> exn + string"

text \<open>Truth value of a Python object, as \<open>not questions\<close> tests it.\<close>

fun truthy :: "json \<Rightarrow> bool" where
  "truthy JNull = False"
| "truthy (JBool b) = b"
| "truthy (JInt i) = (i \<noteq> 0)"
| "truthy (JFloat x) = (x \<noteq> 0)"
| "truthy (JString s) = (s \<noteq> [])"
| "truthy (JArray xs) = (xs \<noteq> [])"
| "truthy (JObject kvs) = (kvs \<noteq> [])"

text \<open>\<open>d.get(k)\<close> on a value that is a dict; \<open>None\<close> on anything else.\<close>

fun field :: "json \<Rightarrow> string \<Rightarrow> json option" where
  "field (JObject kvs) k = map_of kvs k"
| "field _ k = None"

text \<open>\<open>len(x)\<close>: defined on strings, lists and dicts, \<open>TypeError\<close> otherwise.\<close>

fun py_len :: "json \<Rightarrow> exn + nat" where
  "py_len (JString s) = Inr (length s)"
| "py_len (JArray xs) = Inr (length xs)"
| "py_len (JObject kvs) = Inr (length kvs)"
| "py_len _ = Inl TypeError"

text \<open>\<open>str(n)\<close> for an integer: decimal digits, with a minus sign below zero.\<close>

fun str_nat :: "nat \<Rightarrow> string" where
  "str_nat n = (if n < 10 then [char_of (48 + n)] else str_nat (n div 10) @ [char_of (48 + n mod 10)])"

declare str_nat.simps [simp del]

definition str_int :: "int \<Rightarrow> string" where
  "str_int i = (if i < 0 then CHR ''-'' # str_nat (nat (- i)) else str_nat (nat i))"

text \<open>\<open>range(n)\<close>: the integers from 0 up to \<open>n - 1\<close>, none when \<open>n \<le> 0\<close>.\<close>

definition py_range :: "int \<Rightarrow> int list" where
  "py_range n = [0..n - 1]"

text \<open>
  \<open>s.find(c)\<close> and \<open>s.rfind(c)\<close> for a one-character needle: the index of the first
  (last) occurrence, \<open>-1\<close> when there is none.
\<close>

fun str_find :: "string \<Rightarrow> char \<Rightarrow> int" where
  "str_find [] c = - 1"
| "str_find (x # xs) c =
     (if x = c then 0 else (let r = str_find xs c in if r = - 1 then - 1 else r + 1))"

fun str_rfind :: "string \<Rightarrow> char \<Rightarrow> int" where
  "str_rfind [] c = - 1"
| "str_rfind (x # xs) c =
     (let r = str_rfind xs c in if r \<noteq> - 1 then r + 1 else if x = c then 0 else - 1)"

text \<open>
  \<open>s[a:b]\<close>: a negative bound counts from the end, both bounds are clipped to the string.
\<close>

definition py_slice :: "string \<Rightarrow> int \<Rightarrow> int \<Rightarrow> string" where
  "py_slice s a b =
     (let n = int (length s);
          lo = (if a < 0 then max (a + n) 0 else min a n);
          hi = (if b < 0 then max (b + n) 0 else min b n)
      in take (nat (hi - lo)) (drop (nat lo) s))"

text \<open>\<open>sep.join(xs)\<close>\<close>

fun str_join :: "string \<Rightarrow> string list \<Rightarrow> string" where
  "str_join sep [] = []"
| "str_join sep [x] = x"
| "str_join sep (x # y # ys) = x @ sep @ str_join sep (y # ys)"

section \<open>The question generator (services/question\_generator.py)\<close>

text \<open>
  The object has one field, the LLM client, so \<open>self\<close> is the \<open>llm\<close> argument: the chain
  \<open>prompt | self.llm | StrOutputParser()\<close> sends one human message and yields the text of
  the reply, or the provider's fault. \<open>json.loads\<close> is the library decoder, an argument
  of the model.
\<close>

subsection \<open>The three prompts, after formatting\<close>

definition assignment_prompt :: "int \<Rightarrow> string \<Rightarrow> string \<Rightarrow> string" where
  \<open>assignment_prompt num_questions difficulty context =
   ''You are an expert educator creating an assignment. Using the provided content, generate ''
   @ str_int num_questions
   @ '' assignment questions.\<newline>''
   @ ''\<newline>''
   @ ''Difficulty Level: ''
   @ difficulty
   @ ''\<newline>''
   @ ''\<newline>''
   @ ''Guidelines:\<newline>''
   @ ''- Create a mix of question types: theory, numerical, analytical, application-based\<newline>''
   @ ''- Assign appropriate marks: 2-mark, 5-mark, 10-mark questions\<newline>''
   @ ''- Include marking scheme for each question\<newline>''
   @ ''- Ensure questions test different aspects and depth levels\<newline>''
   @ ''\<newline>''
   @ ''Content:\<newline>''
   @ context
   @ ''\<newline>''
   @ ''\<newline>''
   @ ''Generate ''
   @ str_int num_questions
   @ '' well-structured assignment questions in this JSON format:\<newline>''
   @ ''[\<newline>''
   @ ''  {\<newline>''
   @ ''    "question_number": 1,\<newline>''
   @ ''    "question": "Question text here",\<newline>''
   @ ''    "type": "theory/numerical/analytical/application",\<newline>''
   @ ''    "marks": 5,\<newline>''
   @ ''    "marking_scheme": "Point 1 (2 marks), Point 2 (2 marks), Point 3 (1 mark)",\<newline>''
   @ ''    "sample_answer": "Brief outline of expected answer"\<newline>''
   @ ''  }\<newline>''
   @ '']\<newline>''
   @ ''\<newline>''
   @ ''Generate the assignment now:''\<close>

definition mcq_prompt :: "int \<Rightarrow> string \<Rightarrow> string \<Rightarrow> string" where
  \<open>mcq_prompt num_questions difficulty context =
   ''Create ''
   @ str_int num_questions
   @ '' multiple choice questions from the given content.\<newline>''
   @ ''\<newline>''
   @ ''Difficulty: ''
   @ difficulty
   @ ''\<newline>''
   @ ''\<newline>''
   @ ''Requirements:\<newline>''
   @ ''- 4 options (A, B, C, D) for each question\<newline>''
   @ ''- Only ONE correct answer\<newline>''
   @ ''- Distractors should be plausible but clearly incorrect\<newline>''
   @ ''- Cover different topics from the content\<newline>''
   @ ''- Mix factual recall, conceptual, and application-based questions\<newline>''
   @ ''\<newline>''
   @ ''Content:\<newline>''
   @ context
   @ ''\<newline>''
   @ ''\<newline>''
   @ ''Generate MCQs in this JSON format:\<newline>''
   @ ''[\<newline>''
   @ ''  {\<newline>''
   @ ''    "question_number": 1,\<newline>''
   @ ''    "question": "What is...?",\<newline>''
   @ ''    "options": {\<newline>''
   @ ''      "A": "Option A text",\<newline>''
   @ ''      "B": "Option B text",\<newline>''
   @ ''      "C": "Option C text",\<newline>''
   @ ''      "D": "Option D text"\<newline>''
   @ ''    },\<newline>''
   @ ''    "correct_answer": "B",\<newline>''
   @ ''    "explanation": "Brief explanation of why B is correct"\<newline>''
   @ ''  }\<newline>''
   @ '']\<newline>''
   @ ''\<newline>''
   @ ''Generate the MCQs now:''\<close>

definition viva_prompt :: "int \<Rightarrow> string \<Rightarrow> string" where
  \<open>viva_prompt num_questions context =
   ''Generate ''
   @ str_int num_questions
   @ '' viva (oral examination) questions from the content.\<newline>''
   @ ''\<newline>''
   @ ''Viva questions should:\<newline>''
   @ ''- Test conceptual understanding\<newline>''
   @ ''- Be brief and direct\<newline>''
   @ ''- Allow for elaborate verbal answers\<newline>''
   @ ''- Cover fundamental and advanced concepts\<newline>''
   @ ''- Include some "why" and "how" questions\<newline>''
   @ ''\<newline>''
   @ ''Content:\<newline>''
   @ context
   @ ''\<newline>''
   @ ''\<newline>''
   @ ''Generate questions in this JSON format:\<newline>''
   @ ''[\<newline>''
   @ ''  {\<newline>''
   @ ''    "question_number": 1,\<newline>''
   @ ''    "question": "Explain the significance of...",\<newline>''
   @ ''    "type": "conceptual/definition/comparison/application",\<newline>''
   @ ''    "key_points": ["Point 1 expected in answer", "Point 2", "Point 3"],\<newline>''
   @ ''    "difficulty": "easy/medium/hard"\<newline>''
   @ ''  }\<newline>''
   @ '']\<newline>''
   @ ''\<newline>''
   @ ''Generate the viva questions now:''\<close>

subsection \<open>Parsing the reply\<close>

definition parse_json_response :: "(string \<Rightarrow> exn + json) \<Rightarrow> string \<Rightarrow> exn + json" where
  "parse_json_response json_loads response =
     (let start = str_find response (CHR ''['');
          end' = str_rfind response (CHR '']'') + 1
      in if start \<noteq> - 1 \<and> end' > start then
           (case json_loads (py_slice response start end') of
              Inl JSONDecodeError \<Rightarrow> Inr (JArray [])
            | Inl e \<Rightarrow> Inl e
            | Inr v \<Rightarrow> Inr v)
         else Inr (JArray []))"

subsection \<open>The fallback lists\<close>

definition generate_fallback_assignment :: "string \<Rightarrow> int \<Rightarrow> json" where
  "generate_fallback_assignment context num_questions =
     JArray (map (\<lambda>i. JObject
        [(''question_number'', JInt (i + 1)),
         (''question'', JString (''Question '' @ str_int (i + 1)
             @ '': Based on the provided content, explain [topic] with relevant examples.'')),
         (''type'', JString (if i mod 2 = 0 then ''theory'' else ''analytical'')),
         (''marks'', JInt 5),
         (''marking_scheme'', JString ''Refer to content for detailed marking''),
         (''sample_answer'',
            JString ''Answer should cover key concepts from the provided material'')])
       (py_range num_questions))"

definition generate_fallback_mcqs :: "string \<Rightarrow> int \<Rightarrow> json" where
  "generate_fallback_mcqs context num_questions =
     JArray (map (\<lambda>i. JObject
        [(''question_number'', JInt (i + 1)),
         (''question'', JString (''Question '' @ str_int (i + 1) @ '' from content'')),
         (''options'', JObject [(''A'', JString ''A''), (''B'', JString ''B''),
                                (''C'', JString ''C''), (''D'', JString ''D'')]),
         (''correct_answer'', JString ''A''),
         (''explanation'', JString ''Refer to content for explanation'')])
       (py_range num_questions))"

definition generate_fallback_viva :: "string \<Rightarrow> int \<Rightarrow> json" where
  "generate_fallback_viva context num_questions =
     JArray (map (\<lambda>i. JObject
        [(''question_number'', JInt (i + 1)),
         (''question'', JString ''Explain a key concept from the provided content.''),
         (''type'', JString ''conceptual''),
         (''key_points'', JArray [JString ''Point 1'', JString ''Point 2'']),
         (''difficulty'', JString ''medium'')])
       (py_range num_questions))"

subsection \<open>The three operations\<close>

text \<open>
  Each one sends the prompt built from \<open>context[:4000]\<close>, parses the reply, substitutes the
  fallback when the parsed value is falsy, and logs \<open>len(questions)\<close> before it returns.
  Every exception is logged and raised again, so it is the \<open>Inl\<close> result.
\<close>

definition generate_assignment ::
  "llm \<Rightarrow> (string \<Rightarrow> exn + json) \<Rightarrow> string \<Rightarrow> int \<Rightarrow> string \<Rightarrow> exn + json" where
  "generate_assignment llm json_loads context num_questions difficulty =
     (case llm [HumanMessage (assignment_prompt num_questions difficulty (take 4000 context))] of
        Inl e \<Rightarrow> Inl e
      | Inr result \<Rightarrow>
          (case parse_json_response json_loads result of
             Inl e \<Rightarrow> Inl e
           | Inr parsed \<Rightarrow>
               (let questions = (if \<not> truthy parsed
                                 then generate_fallback_assignment context num_questions
                                 else parsed)
                in case py_len questions of
                     Inl e \<Rightarrow> Inl e
                   | Inr n \<Rightarrow> Inr questions)))"

definition generate_mcqs ::
  "llm \<Rightarrow> (string \<Rightarrow> exn + json) \<Rightarrow> string \<Rightarrow> int \<Rightarrow> string \<Rightarrow> exn + json" where
  "generate_mcqs llm json_loads context num_questions difficulty =
     (case llm [HumanMessage (mcq_prompt num_questions difficulty (take 4000 context))] of
        Inl e \<Rightarrow> Inl e
      | Inr result \<Rightarrow>
          (case parse_json_response json_loads result of
             Inl e \<Rightarrow> Inl e
           | Inr parsed \<Rightarrow>
               (let questions = (if \<not> truthy parsed
                                 then generate_fallback_mcqs context num_questions
                                 else parsed)
                in case py_len questions of
                     Inl e \<Rightarrow> Inl e
                   | Inr n \<Rightarrow> Inr questions)))"

definition generate_viva_questions ::
  "llm \<Rightarrow> (string \<Rightarrow> exn + json) \<Rightarrow> string \<Rightarrow> int \<Rightarrow> exn + json" where
  "generate_viva_questions llm json_loads context num_questions =
     (case llm [HumanMessage (viva_prompt num_questions (take 4000 context))] of
        Inl e \<Rightarrow> Inl e
      | Inr result \<Rightarrow>
          (case parse_json_response json_loads result of
             Inl e \<Rightarrow> Inl e
           | Inr parsed \<Rightarrow>
               (let questions = (if \<not> truthy parsed
                                 then generate_fallback_viva context num_questions
                                 else parsed)
                in case py_len questions of
                     Inl e \<Rightarrow> Inl e
                   | Inr n \<Rightarrow> Inr questions)))"

section \<open>The RAG engine (services/rag\_engine.py)\<close>

text \<open>
  A retrieved chunk is a LangChain \<open>Document\<close>: its text and its metadata dict. The answer
  of \<open>self.vectorstore._collection.get(include=["metadatas", "documents"])\<close> is a dict of
  two parallel lists; an entry of \<open>metadatas\<close> may be \<open>None\<close>.
\<close>

record document =
  page_content :: string
  metadata :: "(string \<times> string) list"

record collection_data =
  documents :: "string list"
  metadatas :: "(string \<times> string) list option list"

text \<open>The calls that leave the process, in the order they are made.\<close>

datatype call = LLMCall "message list" | RetrieverCall string | CollectionGet

text \<open>
  The engine object: the LLM client, the retriever of the vector store, what the collection
  answers to \<open>get\<close>, Python's \<open>str\<close> of a list of documents (it fills \<open>{context}\<close> in the
  answering prompt), the dict \<open>self.store\<close> of chat histories, and the calls made so far.
\<close>

record rag_engine =
  llm :: llm
  retriever :: "string \<Rightarrow> exn + document list"
  collection_get :: "exn + collection_data"
  docs_str :: "document list \<Rightarrow> string"
  store :: "string \<rightharpoonup> message list"
  calls :: "call list"

record response_dict =
  rd_input :: string
  rd_chat_history :: "message list"
  rd_context :: "document list"
  rd_answer :: string

record query_result =
  answer :: string
  sources :: "string list"
  mode :: string

definition contextualize_q_system_prompt :: string where
  "contextualize_q_system_prompt =
     ''Given a chat history and the latest user question ''
   @ ''which might reference context in the chat history, ''
   @ ''formulate a standalone question which can be understood ''
   @ ''without the chat history. Do NOT answer the question, ''
   @ ''just reformulate it if needed and otherwise return it as is.''"

definition system_prompt :: "string \<Rightarrow> string" where
  \<open>system_prompt context =
     ''You are an assistant for question-answering tasks. ''
   @ ''Use the following pieces of retrieved context to answer ''
   @ ''the question. If you don't know the answer, say that you ''
   @ ''don't know. Use three sentences maximum and keep the ''
   @ ''answer concise.''
   @ ''\<newline>\<newline>''
   @ context\<close>

definition contextualize_q_prompt :: "message list \<Rightarrow> string \<Rightarrow> message list" where
  "contextualize_q_prompt chat_history input =
     [SystemMessage contextualize_q_system_prompt] @ chat_history @ [HumanMessage input]"

definition qa_prompt :: "string \<Rightarrow> message list \<Rightarrow> string \<Rightarrow> message list" where
  "qa_prompt context chat_history input =
     [SystemMessage (system_prompt context)] @ chat_history @ [HumanMessage input]"

definition llm_invoke :: "rag_engine \<Rightarrow> message list \<Rightarrow> (exn + string) \<times> rag_engine" where
  "llm_invoke self msgs = (llm self msgs, self\<lparr>calls := calls self @ [LLMCall msgs]\<rparr>)"

definition retriever_invoke ::
  "rag_engine \<Rightarrow> string \<Rightarrow> (exn + document list) \<times> rag_engine" where
  "retriever_invoke self query =
     (retriever self query, self\<lparr>calls := calls self @ [RetrieverCall query]\<rparr>)"

definition history_aware_query_chain ::
  "rag_engine \<Rightarrow> string \<Rightarrow> message list \<Rightarrow> (exn + string) \<times> rag_engine" where
  "history_aware_query_chain self input chat_history =
     llm_invoke self (contextualize_q_prompt chat_history input)"

definition question_answer_chain ::
  "rag_engine \<Rightarrow> string \<Rightarrow> message list \<Rightarrow> document list \<Rightarrow> (exn + string) \<times> rag_engine" where
  "question_answer_chain self input chat_history context =
     llm_invoke self (qa_prompt (docs_str self context) chat_history input)"

definition get_docs ::
  "rag_engine \<Rightarrow> string \<Rightarrow> message list \<Rightarrow> (exn + document list) \<times> rag_engine" where
  "get_docs self input chat_history =
     (case history_aware_query_chain self input chat_history of
        (Inl e, s1) \<Rightarrow> (Inl e, s1)
      | (Inr query, s1) \<Rightarrow> retriever_invoke s1 query)"

definition rag_chain ::
  "rag_engine \<Rightarrow> string \<Rightarrow> message list \<Rightarrow> (exn + response_dict) \<times> rag_engine" where
  "rag_chain self input chat_history =
     (case get_docs self input chat_history of
        (Inl e, s1) \<Rightarrow> (Inl e, s1)
      | (Inr context, s1) \<Rightarrow>
          (case question_answer_chain s1 input chat_history context of
             (Inl e, s2) \<Rightarrow> (Inl e, s2)
           | (Inr a, s2) \<Rightarrow>
               (Inr \<lparr>rd_input = input, rd_chat_history = chat_history,
                      rd_context = context, rd_answer = a\<rparr>, s2)))"

definition get_session_history :: "rag_engine \<Rightarrow> string \<Rightarrow> message list \<times> rag_engine" where
  "get_session_history self session_id =
     (case store self session_id of
        None \<Rightarrow> ([], self\<lparr>store := (store self)(session_id \<mapsto> [])\<rparr>)
      | Some h \<Rightarrow> (h, self))"

text \<open>
  Modelled from the spec: the wrapper \<open>RunnableWithMessageHistory\<close> around \<open>rag_chain\<close> is
  library code that is not under src/. Following steps 1 and 5 of the spec's section 4.1, it
  fetches the session's history with \<open>get_session_history\<close>, runs the chain with that
  history as \<open>chat_history\<close>, and when the chain succeeds appends the user's input and the
  answer to the history; a failing chain leaves the history as fetched.
\<close>

definition conversational_rag_chain ::
  "rag_engine \<Rightarrow> string \<Rightarrow> string \<Rightarrow> (exn + response_dict) \<times> rag_engine" where
  "conversational_rag_chain self input session_id =
     (case get_session_history self session_id of
        (hist, s1) \<Rightarrow>
          (case rag_chain s1 input hist of
             (Inl e, s2) \<Rightarrow> (Inl e, s2)
           | (Inr r, s2) \<Rightarrow>
               (Inr r, s2\<lparr>store := (store s2)(session_id \<mapsto>
                              hist @ [HumanMessage input, AIMessage (rd_answer r)])\<rparr>)))"

text \<open>\<open>doc.metadata.get("source", "Unknown")\<close>\<close>

definition source_of :: "document \<Rightarrow> string" where
  "source_of doc = (case map_of (metadata doc) ''source'' of None \<Rightarrow> ''Unknown'' | Some v \<Rightarrow> v)"

text \<open>
  \<open>list(set(xs))\<close> lists each element once, in an order Python does not fix; the model takes
  the order of \<open>remdups\<close>, and the theorems on \<open>sources\<close> speak of \<open>set\<close> and \<open>distinct\<close>
  only. The key \<open>context\<close> is always in the chain's result, so the test left is that the
  list of documents is not empty.
\<close>

definition answer_query ::
  "rag_engine \<Rightarrow> string \<Rightarrow> string \<Rightarrow> (exn + query_result) \<times> rag_engine" where
  "answer_query self query session_id =
     (case conversational_rag_chain self query session_id of
        (Inl e, s1) \<Rightarrow> (Inl e, s1)
      | (Inr response, s1) \<Rightarrow>
          (let srcs = (if rd_context response \<noteq> []
                       then remdups (map source_of (rd_context response))
                       else [])
           in (Inr \<lparr>answer = rd_answer response, sources = srcs, mode = ''qa''\<rparr>, s1)))"

text \<open>\<open>metadata and metadata.get('doc_id') in document_ids\<close>\<close>

definition metadata_matches :: "(string \<times> string) list option \<Rightarrow> string list \<Rightarrow> bool" where
  "metadata_matches md document_ids =
     (case md of
        None \<Rightarrow> False
      | Some m \<Rightarrow> m \<noteq> [] \<and>
          (case map_of m ''doc_id'' of None \<Rightarrow> False | Some v \<Rightarrow> v \<in> set document_ids))"

text \<open>
  The loop over \<open>enumerate(all_data['metadatas'])\<close>; \<open>all_data['documents'][i]\<close> raises
  \<open>IndexError\<close> past the end of the list.
\<close>

fun filter_chunks ::
  "string list \<Rightarrow> string list \<Rightarrow> (nat \<times> (string \<times> string) list option) list \<Rightarrow> string list
     \<Rightarrow> exn + string list" where
  "filter_chunks docs document_ids [] all_chunks = Inr all_chunks"
| "filter_chunks docs document_ids ((i, md) # rest) all_chunks =
     (if metadata_matches md document_ids then
        (if i < length docs
         then filter_chunks docs document_ids rest (all_chunks @ [docs ! i])
         else Inl IndexError)
      else filter_chunks docs document_ids rest all_chunks)"

definition documents_context_body :: "rag_engine \<Rightarrow> string list \<Rightarrow> exn + string" where
  "documents_context_body self document_ids =
     (case collection_get self of
        Inl e \<Rightarrow> Inl e
      | Inr all_data \<Rightarrow>
          if documents all_data = [] then Inr []
          else (case filter_chunks (documents all_data) document_ids
                       (enumerate 0 (metadatas all_data)) [] of
                  Inl e \<Rightarrow> Inl e
                | Inr all_chunks \<Rightarrow> Inr (str_join ''\<newline>\<newline>'' (take 20 all_chunks))))"

text \<open>The \<open>try\<close> around the body: any exception is logged and the result is \<open>""\<close>.\<close>

definition get_documents_context ::
  "rag_engine \<Rightarrow> string list \<Rightarrow> (exn + string) \<times> rag_engine" where
  "get_documents_context self document_ids =
     (case documents_context_body self document_ids of
        Inl e \<Rightarrow> Inr []
      | Inr context \<Rightarrow> Inr context,
      self\<lparr>calls := calls self @ [CollectionGet]\<rparr>)"

section \<open>Test doubles for the worked examples\<close>

text \<open>
  An LLM that always replies with the same text, a decoder that knows three inputs, and an
  engine over three chunks whose LLM tells the reformulation prompt from the answering one.
\<close>

definition reply_llm :: "string \<Rightarrow> llm" where
  "reply_llm text msgs = Inr text"

definition stub_json_loads :: "string \<Rightarrow> exn + json" where
  \<open>stub_json_loads s =
     (if s = ''[]'' then Inr (JArray [])
      else if s = ''[{"question_number": 1}, {"question_number": 2}]''
      then Inr (JArray [JObject [(''question_number'', JInt 1)],
                        JObject [(''question_number'', JInt 2)]])
      else Inl JSONDecodeError)\<close>

text \<open>
  A decoder that raises \<open>RecursionError\<close> on a text that opens with 2000 brackets, as
  \<open>json.loads\<close> does, and is \<open>stub_json_loads\<close> elsewhere.
\<close>

definition deep_json_loads :: "string \<Rightarrow> exn + json" where
  "deep_json_loads s =
     (if take 2000 s = replicate 2000 (CHR ''['') then Inl RecursionError
      else stub_json_loads s)"

text \<open>
  Two LLMs that look at the prompt they are sent: one fails with the prompt as its message,
  the other replies with two questions unless the letter Z occurs in the prompt.
\<close>

definition echo_llm :: llm where
  "echo_llm msgs =
     (case msgs of
        [HumanMessage p] \<Rightarrow> Inl (ProviderFault p)
      | _ \<Rightarrow> Inl (ProviderFault ''bad request''))"

definition spy_llm :: llm where
  \<open>spy_llm msgs =
     (case msgs of
        [HumanMessage p] \<Rightarrow>
          if CHR ''Z'' \<in> set p then Inr ''I saw the tail.''
          else Inr ''[{"question_number": 1}, {"question_number": 2}]''
      | _ \<Rightarrow> Inl (ProviderFault ''bad request''))\<close>

definition demo_llm :: llm where
  "demo_llm msgs =
     (case msgs of
        SystemMessage p # rest \<Rightarrow>
          if p = contextualize_q_system_prompt then Inr ''Define the stack data structure.''
          else Inr ''A stack is a last-in first-out structure.''
      | _ \<Rightarrow> Inl (ProviderFault ''bad request''))"

definition demo_docs :: "document list" where
  "demo_docs =
     [\<lparr>page_content = ''Stacks are LIFO.'',
       metadata = [(''source'', ''ds.pdf''), (''doc_id'', ''doc1'')]\<rparr>,
      \<lparr>page_content = ''Queues are FIFO.'', metadata = [(''doc_id'', ''doc2'')]\<rparr>,
      \<lparr>page_content = ''Push and pop.'',
       metadata = [(''source'', ''ds.pdf''), (''doc_id'', ''doc1'')]\<rparr>]"

definition demo_retriever :: "string \<Rightarrow> exn + document list" where
  "demo_retriever query = Inr demo_docs"

definition demo_docs_str :: "document list \<Rightarrow> string" where
  "demo_docs_str ds = str_join ''\<newline>'' (map page_content ds)"

definition demo_collection :: collection_data where
  "demo_collection =
     \<lparr>documents = [''Stacks are LIFO.'', ''Queues are FIFO.'', ''Push and pop.''],
      metadatas = [Some [(''source'', ''ds.pdf''), (''doc_id'', ''doc1'')],
                   Some [(''doc_id'', ''doc2'')],
                   Some [(''source'', ''ds.pdf''), (''doc_id'', ''doc1'')]]\<rparr>"

definition demo_engine :: rag_engine where
  "demo_engine =
     \<lparr>llm = demo_llm, retriever = demo_retriever, collection_get = Inr demo_collection,
      docs_str = demo_docs_str, store = Map.empty, calls = []\<rparr>"

definition broken_store_engine :: rag_engine where
  "broken_store_engine =
     demo_engine\<lparr>collection_get := Inl (ProviderFault ''connection refused'')\<rparr>"

text \<open>
  Variants of the engine: one whose chunks all name a source, one with a history for
  session \<open>s1\<close>, one over an empty store.
\<close>

definition sourced_docs :: "document list" where
  "sourced_docs =
     [\<lparr>page_content = ''Stacks are LIFO.'', metadata = [(''source'', ''ds.pdf'')]\<rparr>,
      \<lparr>page_content = ''Sorting.'', metadata = [(''source'', ''algo.pdf'')]\<rparr>,
      \<lparr>page_content = ''Push and pop.'', metadata = [(''source'', ''ds.pdf'')]\<rparr>]"

definition sourced_retriever :: "string \<Rightarrow> exn + document list" where
  "sourced_retriever query = Inr sourced_docs"

definition sourced_engine :: rag_engine where
  "sourced_engine = demo_engine\<lparr>retriever := sourced_retriever\<rparr>"

definition warm_engine :: rag_engine where
  "warm_engine =
     demo_engine\<lparr>store := [''s1'' \<mapsto> [HumanMessage ''What is a stack?'',
        AIMessage ''A stack is a last-in first-out structure.'']]\<rparr>"

definition empty_store_engine :: rag_engine where
  "empty_store_engine = demo_engine\<lparr>collection_get := Inr \<lparr>documents = [], metadatas = []\<rparr>\<rparr>"

text \<open>
  The store of the spec's example: 30 chunks, the first 25 of document \<open>doc1\<close>, the last 5
  of another document.
\<close>

definition spec_chunk :: "nat \<Rightarrow> string" where
  "spec_chunk i = ''chunk '' @ str_nat i"

definition spec_metadata :: "nat \<Rightarrow> (string \<times> string) list option" where
  "spec_metadata i = Some [(''doc_id'', if i < 25 then ''doc1'' else ''doc2'')]"

definition spec_collection :: collection_data where
  "spec_collection =
     \<lparr>documents = map spec_chunk [0..<30], metadatas = map spec_metadata [0..<30]\<rparr>"

definition spec_engine :: rag_engine where
  "spec_engine = demo_engine\<lparr>collection_get := Inr spec_collection\<rparr>"

section \<open>Facts about the string helpers\<close>

lemma str_find_lower: "- 1 \<le> str_find s c"
  by (induction s) (auto simp: Let_def)

lemma str_find_none: "(str_find s c = - 1) = (c \<notin> set s)"
proof (induction s)
  case Nil show ?case by simp
next
  case (Cons x xs)
  have "- 1 \<le> str_find xs c" by (rule str_find_lower)
  with Cons show ?case by (auto simp: Let_def)
qed

lemma str_find_append: "c \<notin> set pre \<Longrightarrow> str_find (pre @ c # rest) c = int (length pre)"
  by (induction pre) (auto simp: Let_def)

lemma str_rfind_lower: "- 1 \<le> str_rfind s c"
  by (induction s) (auto simp: Let_def)

lemma str_rfind_none: "(str_rfind s c = - 1) = (c \<notin> set s)"
proof (induction s)
  case Nil show ?case by simp
next
  case (Cons x xs)
  have "- 1 \<le> str_rfind xs c" by (rule str_rfind_lower)
  with Cons show ?case by (auto simp: Let_def)
qed

lemma str_rfind_append: "c \<notin> set post \<Longrightarrow> str_rfind (xs @ c # post) c = int (length xs)"
proof (induction xs)
  case Nil
  then have "str_rfind post c = - 1" by (simp add: str_rfind_none)
  then show ?case by (simp add: Let_def)
next
  case (Cons x xs)
  then show ?case by (simp add: Let_def)
qed

lemma py_slice_mid:
  "py_slice (pre @ mid @ post) (int (length pre)) (int (length pre + length mid)) = mid"
  by (simp add: py_slice_def Let_def)

section \<open>Facts about the question generator\<close>

lemma parse_json_response_span:
  assumes "CHR ''['' \<notin> set pre" and "CHR '']'' \<notin> set post"
  shows "parse_json_response jl (pre @ CHR ''['' # mid @ CHR '']'' # post) =
     (case jl (CHR ''['' # mid @ [CHR '']'']) of
        Inl JSONDecodeError \<Rightarrow> Inr (JArray [])
      | Inl e \<Rightarrow> Inl e
      | Inr v \<Rightarrow> Inr v)"
proof -
  let ?r = "pre @ CHR ''['' # mid @ CHR '']'' # post"
  have start: "str_find ?r (CHR ''['') = int (length pre)"
    using assms(1) by (rule str_find_append)
  have "str_rfind ((pre @ CHR ''['' # mid) @ CHR '']'' # post) (CHR '']'') =
          int (length (pre @ CHR ''['' # mid))"
    using assms(2) by (rule str_rfind_append)
  then have stop: "str_rfind ?r (CHR '']'') + 1 = int (length pre + length (CHR ''['' # mid @ [CHR '']'']))"
    by simp
  have "py_slice (pre @ (CHR ''['' # mid @ [CHR '']'']) @ post) (int (length pre))
          (int (length pre + length (CHR ''['' # mid @ [CHR '']'']))) = CHR ''['' # mid @ [CHR '']'']"
    by (rule py_slice_mid)
  then have span: "py_slice ?r (int (length pre))
          (int (length pre + length (CHR ''['' # mid @ [CHR '']'']))) = CHR ''['' # mid @ [CHR '']'']"
    by simp
  show ?thesis
    unfolding parse_json_response_def start stop span Let_def by simp
qed

lemma parse_json_response_unparseable:
  assumes "CHR ''['' \<notin> set r \<or> CHR '']'' \<notin> set r \<or>
     jl (py_slice r (str_find r (CHR ''['')) (str_rfind r (CHR '']'') + 1)) = Inl JSONDecodeError"
  shows "parse_json_response jl r = Inr (JArray [])"
proof -
  have a: "CHR ''['' \<notin> set r \<Longrightarrow> str_find r (CHR ''['') = - 1"
    by (simp add: str_find_none)
  have b: "CHR '']'' \<notin> set r \<Longrightarrow> str_rfind r (CHR '']'') + 1 = 0"
    using str_rfind_none [of r "CHR '']''"] by arith
  have c: "- 1 \<le> str_find r (CHR ''['')" by (rule str_find_lower)
  from assms a b c show ?thesis
    unfolding parse_json_response_def Let_def by auto
qed

lemma length_py_range: "length (py_range n) = nat n"
  by (simp add: py_range_def)

lemma nth_py_range: "i < nat n \<Longrightarrow> py_range n ! i = int i"
  by (simp add: py_range_def)


lemma generate_assignment_fallback:
  "l [HumanMessage (assignment_prompt n d (take 4000 c))] = Inr r \<Longrightarrow>
   parse_json_response jl r = Inr (JArray []) \<Longrightarrow>
   generate_assignment l jl c n d = Inr (generate_fallback_assignment c n)"
  by (simp add: generate_assignment_def generate_fallback_assignment_def)

lemma generate_mcqs_fallback:
  "l [HumanMessage (mcq_prompt n d (take 4000 c))] = Inr r \<Longrightarrow>
   parse_json_response jl r = Inr (JArray []) \<Longrightarrow>
   generate_mcqs l jl c n d = Inr (generate_fallback_mcqs c n)"
  by (simp add: generate_mcqs_def generate_fallback_mcqs_def)

lemma generate_viva_fallback:
  "l [HumanMessage (viva_prompt n (take 4000 c))] = Inr r \<Longrightarrow>
   parse_json_response jl r = Inr (JArray []) \<Longrightarrow>
   generate_viva_questions l jl c n = Inr (generate_fallback_viva c n)"
  by (simp add: generate_viva_questions_def generate_fallback_viva_def)




lemma fallback_assignment_items:
  "\<exists>xs. generate_fallback_assignment c n = JArray xs \<and> length xs = nat n \<and>
     (\<forall>i<nat n. field (xs ! i) ''question_number'' = Some (JInt (int i + 1)))"
  by (simp add: generate_fallback_assignment_def length_py_range nth_py_range)

lemma fallback_mcqs_items:
  "\<exists>xs. generate_fallback_mcqs c n = JArray xs \<and> length xs = nat n \<and>
     (\<forall>i<nat n. field (xs ! i) ''question_number'' = Some (JInt (int i + 1)) \<and>
        field (xs ! i) ''options'' =
          Some (JObject [(''A'', JString ''A''), (''B'', JString ''B''),
                         (''C'', JString ''C''), (''D'', JString ''D'')]) \<and>
        field (xs ! i) ''correct_answer'' = Some (JString ''A''))"
  by (simp add: generate_fallback_mcqs_def length_py_range nth_py_range)

lemma fallback_viva_items:
  "\<exists>xs. generate_fallback_viva c n = JArray xs \<and> length xs = nat n \<and>
     (\<forall>i<nat n. field (xs ! i) ''question_number'' = Some (JInt (int i + 1)))"
  by (simp add: generate_fallback_viva_def length_py_range nth_py_range)

text \<open>
  The fallback path: when the reply has no \<open>[\<close>, or no \<open>]\<close>, or \<open>json.loads\<close> raises
  \<open>JSONDecodeError\<close> on the span from the first \<open>[\<close> to the last \<open>]\<close>, each of the three
  operations returns its fallback list. Each fallback list has exactly \<open>num_questions\<close>
  items, numbered 1, 2, ... in order; every item of the MCQ fallback has the options A, B, C
  and D and the correct answer \<open>"A"\<close>.
\<close>

lemma fallback_on_unparseable_reply:
  assumes "CHR ''['' \<notin> set r \<or> CHR '']'' \<notin> set r \<or>
     jl (py_slice r (str_find r (CHR ''['')) (str_rfind r (CHR '']'') + 1)) = Inl JSONDecodeError"
  shows "(l [HumanMessage (assignment_prompt n d (take 4000 c))] = Inr r \<longrightarrow>
            generate_assignment l jl c n d = Inr (generate_fallback_assignment c n))
       \<and> (l [HumanMessage (mcq_prompt n d (take 4000 c))] = Inr r \<longrightarrow>
            generate_mcqs l jl c n d = Inr (generate_fallback_mcqs c n))
       \<and> (l [HumanMessage (viva_prompt n (take 4000 c))] = Inr r \<longrightarrow>
            generate_viva_questions l jl c n = Inr (generate_fallback_viva c n))
       \<and> (\<exists>xs. generate_fallback_assignment c n = JArray xs \<and> length xs = nat n \<and>
            (\<forall>i<nat n. field (xs ! i) ''question_number'' = Some (JInt (int i + 1))))
       \<and> (\<exists>xs. generate_fallback_mcqs c n = JArray xs \<and> length xs = nat n \<and>
            (\<forall>i<nat n. field (xs ! i) ''question_number'' = Some (JInt (int i + 1)) \<and>
               field (xs ! i) ''options'' =
                 Some (JObject [(''A'', JString ''A''), (''B'', JString ''B''),
                                (''C'', JString ''C''), (''D'', JString ''D'')]) \<and>
               field (xs ! i) ''correct_answer'' = Some (JString ''A'')))
       \<and> (\<exists>xs. generate_fallback_viva c n = JArray xs \<and> length xs = nat n \<and>
            (\<forall>i<nat n. field (xs ! i) ''question_number'' = Some (JInt (int i + 1))))"
proof -
  have p: "parse_json_response jl r = Inr (JArray [])"
    using assms by (rule parse_json_response_unparseable)
  show ?thesis
  proof (intro conjI impI)
    assume "l [HumanMessage (assignment_prompt n d (take 4000 c))] = Inr r"
    then show "generate_assignment l jl c n d = Inr (generate_fallback_assignment c n)"
      using p by (rule generate_assignment_fallback)
  next
    assume "l [HumanMessage (mcq_prompt n d (take 4000 c))] = Inr r"
    then show "generate_mcqs l jl c n d = Inr (generate_fallback_mcqs c n)"
      using p by (rule generate_mcqs_fallback)
  next
    assume "l [HumanMessage (viva_prompt n (take 4000 c))] = Inr r"
    then show "generate_viva_questions l jl c n = Inr (generate_fallback_viva c n)"
      using p by (rule generate_viva_fallback)
  qed (rule fallback_assignment_items fallback_mcqs_items fallback_viva_items)+
qed

lemma generate_assignment_raises:
  "l [HumanMessage (assignment_prompt n d (take 4000 c))] = Inr r \<Longrightarrow>
   parse_json_response jl r = Inl e \<Longrightarrow>
   generate_assignment l jl c n d = Inl e"
  by (simp add: generate_assignment_def)

lemma generate_mcqs_raises:
  "l [HumanMessage (mcq_prompt n d (take 4000 c))] = Inr r \<Longrightarrow>
   parse_json_response jl r = Inl e \<Longrightarrow>
   generate_mcqs l jl c n d = Inl e"
  by (simp add: generate_mcqs_def)

lemma generate_viva_raises:
  "l [HumanMessage (viva_prompt n (take 4000 c))] = Inr r \<Longrightarrow>
   parse_json_response jl r = Inl e \<Longrightarrow>
   generate_viva_questions l jl c n = Inl e"
  by (simp add: generate_viva_questions_def)

lemma parse_json_response_raises:
  assumes "CHR ''['' \<notin> set pre" and "CHR '']'' \<notin> set post"
    and "jl (CHR ''['' # mid @ [CHR '']'']) = Inl e" and "e \<noteq> JSONDecodeError"
  shows "parse_json_response jl (pre @ CHR ''['' # mid @ CHR '']'' # post) = Inl e"
  using assms by (cases e) (simp_all add: parse_json_response_span)

text \<open>
  C2: a reply that cannot be parsed as a JSON array should give the fallback list and no
  exception. The code does so on the fallback path above only: \<open>_parse_json_response\<close>
  catches \<open>json.JSONDecodeError\<close> and nothing else, so when \<open>json.loads\<close> raises any other
  exception on the span (\<open>RecursionError\<close> on a reply that opens with 2000 brackets,
  \<open>ValueError\<close> on an integer literal of 5000 digits), each of the three operations raises
  that exception instead of returning its fallback.
\<close>

theorem decoder_fault_other_than_decode_error_is_raised:
  assumes pre: "CHR ''['' \<notin> set pre"
    and post: "CHR '']'' \<notin> set post"
    and fault: "jl (CHR ''['' # mid @ [CHR '']'']) = Inl e"
    and other: "e \<noteq> JSONDecodeError"
  shows "(l [HumanMessage (assignment_prompt n d (take 4000 c))]
            = Inr (pre @ CHR ''['' # mid @ CHR '']'' # post) \<longrightarrow>
          generate_assignment l jl c n d = Inl e)
       \<and> (l [HumanMessage (mcq_prompt n d (take 4000 c))]
            = Inr (pre @ CHR ''['' # mid @ CHR '']'' # post) \<longrightarrow>
          generate_mcqs l jl c n d = Inl e)
       \<and> (l [HumanMessage (viva_prompt n (take 4000 c))]
            = Inr (pre @ CHR ''['' # mid @ CHR '']'' # post) \<longrightarrow>
          generate_viva_questions l jl c n = Inl e)"
proof -
  have p: "parse_json_response jl (pre @ CHR ''['' # mid @ CHR '']'' # post) = Inl e"
    using pre post fault other by (rule parse_json_response_raises)
  show ?thesis
  proof (intro conjI impI)
    assume "l [HumanMessage (assignment_prompt n d (take 4000 c))]
            = Inr (pre @ CHR ''['' # mid @ CHR '']'' # post)"
    then show "generate_assignment l jl c n d = Inl e"
      using p by (rule generate_assignment_raises)
  next
    assume "l [HumanMessage (mcq_prompt n d (take 4000 c))]
            = Inr (pre @ CHR ''['' # mid @ CHR '']'' # post)"
    then show "generate_mcqs l jl c n d = Inl e"
      using p by (rule generate_mcqs_raises)
  next
    assume "l [HumanMessage (viva_prompt n (take 4000 c))]
            = Inr (pre @ CHR ''['' # mid @ CHR '']'' # post)"
    then show "generate_viva_questions l jl c n = Inl e"
      using p by (rule generate_viva_raises)
  qed
qed

lemma deep_reply_shape:
  "replicate 2000 (CHR ''['') @ ''oops]'' =
     [] @ CHR ''['' # (replicate 1999 (CHR ''['') @ ''oops'') @ CHR '']'' # []"
proof -
  have "(2000::nat) = Suc 1999" by simp
  then have "replicate 2000 (CHR ''['') = CHR ''['' # replicate 1999 (CHR ''['')"
    by (simp only: replicate_Suc)
  then show ?thesis by simp
qed

lemma deep_reply_fault:
  "deep_json_loads (CHR ''['' # (replicate 1999 (CHR ''['') @ ''oops'') @ [CHR '']''])
     = Inl RecursionError"
proof -
  have "CHR ''['' # (replicate 1999 (CHR ''['') @ ''oops'') @ [CHR '']'']
      = replicate 2000 (CHR ''['') @ ''oops]''"
    using deep_reply_shape by simp
  then show ?thesis by (simp add: deep_json_loads_def)
qed

theorem decoder_fault_other_than_decode_error_is_raised_witness:
  "generate_mcqs (reply_llm (replicate 2000 (CHR ''['') @ ''oops]'')) deep_json_loads
      ''Stacks and queues'' 3 ''medium'' = Inl RecursionError"
proof -
  have pre: "CHR ''['' \<notin> set []" by simp
  have post: "CHR '']'' \<notin> set []" by simp
  have other: "RecursionError \<noteq> JSONDecodeError" by simp
  have reply: "reply_llm (replicate 2000 (CHR ''['') @ ''oops]'')
      [HumanMessage (mcq_prompt 3 ''medium'' (take 4000 ''Stacks and queues''))]
      = Inr ([] @ CHR ''['' # (replicate 1999 (CHR ''['') @ ''oops'') @ CHR '']'' # [])"
    unfolding reply_llm_def using deep_reply_shape by (simp only:)
  show ?thesis
    using decoder_fault_other_than_decode_error_is_raised
      [where l = "reply_llm (replicate 2000 (CHR ''['') @ ''oops]'')" and jl = deep_json_loads
         and n = 3 and d = "''medium''" and c = "''Stacks and queues''"
         and pre = "[]" and post = "[]" and mid = "replicate 1999 (CHR ''['') @ ''oops''",
       OF pre post deep_reply_fault other, THEN conjunct2, THEN conjunct1, rule_format, OF reply] .
qed

text \<open>
  C7: when the reply holds a JSON array from its first \<open>[\<close> to its last \<open>]\<close> that
  \<open>json.loads\<close> decodes to \<open>num_questions\<close> items, \<open>generate_assignment\<close> returns exactly
  those items, unchanged and in their order (whatever surrounds the array in the reply).
\<close>

theorem generate_assignment_returns_parsed_items:
  assumes reply: "l [HumanMessage (assignment_prompt n d (take 4000 c))]
                    = Inr (pre @ CHR ''['' # mid @ CHR '']'' # post)"
    and pre: "CHR ''['' \<notin> set pre"
    and post: "CHR '']'' \<notin> set post"
    and valid: "jl (CHR ''['' # mid @ [CHR '']'']) = Inr (JArray items)"
    and count: "int (length items) = n"
  shows "generate_assignment l jl c n d = Inr (JArray items)"
proof -
  have p: "parse_json_response jl (pre @ CHR ''['' # mid @ CHR '']'' # post) = Inr (JArray items)"
    using pre post valid by (simp add: parse_json_response_span)
  show ?thesis
  proof (cases "items = []")
    case True
    with count have "py_range n = []" by (simp add: py_range_def)
    with True reply p show ?thesis
      by (simp add: generate_assignment_def generate_fallback_assignment_def)
  next
    case False
    with reply p show ?thesis
      by (simp add: generate_assignment_def)
  qed
qed

theorem generate_assignment_returns_parsed_items_witness:
  \<open>generate_assignment
     (reply_llm ''Here you go: [{"question_number": 1}, {"question_number": 2}] Enjoy!'')
     stub_json_loads ''Stacks and queues'' 2 ''medium''
   = Inr (JArray [JObject [(''question_number'', JInt 1)],
                  JObject [(''question_number'', JInt 2)]])\<close>
proof -
  have reply: \<open>reply_llm ''Here you go: [{"question_number": 1}, {"question_number": 2}] Enjoy!''
      [HumanMessage (assignment_prompt 2 ''medium'' (take 4000 ''Stacks and queues''))]
      = Inr (''Here you go: '' @ CHR ''['' # ''{"question_number": 1}, {"question_number": 2}''
              @ CHR '']'' # '' Enjoy!'')\<close>
    by (simp add: reply_llm_def)
  have pre: "CHR ''['' \<notin> set ''Here you go: ''" by simp
  have post: "CHR '']'' \<notin> set '' Enjoy!''" by simp
  have valid: \<open>stub_json_loads (CHR ''['' # ''{"question_number": 1}, {"question_number": 2}'' @ [CHR '']''])
      = Inr (JArray [JObject [(''question_number'', JInt 1)],
                     JObject [(''question_number'', JInt 2)]])\<close>
    by (simp add: stub_json_loads_def)
  have count: "int (length [JObject [(''question_number'', JInt 1)],
                     JObject [(''question_number'', JInt 2)]]) = 2" by simp
  show ?thesis
    using generate_assignment_returns_parsed_items
      [where l = \<open>reply_llm ''Here you go: [{"question_number": 1}, {"question_number": 2}] Enjoy!''\<close>
         and jl = stub_json_loads and n = 2 and d = "''medium''" and c = "''Stacks and queues''"
         and pre = "''Here you go: ''" and post = "'' Enjoy!''"
         and mid = \<open>''{"question_number": 1}, {"question_number": 2}''\<close>,
       OF reply pre post valid count] .
qed

lemma context_split_base: "\<exists>pre post. \<forall>ctx. ctx @ b = pre @ ctx @ post"
  by (rule exI [of _ "[]"]) simp

lemma context_split_step:
  "\<exists>pre post. \<forall>ctx. f ctx = pre @ ctx @ post \<Longrightarrow> \<exists>pre post. \<forall>ctx. a @ f ctx = pre @ ctx @ post"
proof -
  assume "\<exists>pre post. \<forall>ctx. f ctx = pre @ ctx @ post"
  then obtain pre post where "\<forall>ctx. f ctx = pre @ ctx @ post" by blast
  then have "\<forall>ctx. a @ f ctx = (a @ pre) @ ctx @ post" by simp
  then show ?thesis by blast
qed

lemma assignment_prompt_split: "\<exists>pre post. \<forall>ctx. assignment_prompt n d ctx = pre @ ctx @ post"
  unfolding assignment_prompt_def by (rule context_split_step)+ (rule context_split_base)

lemma mcq_prompt_split: "\<exists>pre post. \<forall>ctx. mcq_prompt n d ctx = pre @ ctx @ post"
  unfolding mcq_prompt_def by (rule context_split_step)+ (rule context_split_base)

lemma viva_prompt_split: "\<exists>pre post. \<forall>ctx. viva_prompt n ctx = pre @ ctx @ post"
  unfolding viva_prompt_def by (rule context_split_step)+ (rule context_split_base)

lemma generate_assignment_through_prompt:
  "\<exists>k. (\<forall>e. k (Inl e) = Inl e) \<and>
     (\<forall>l c. generate_assignment l jl c n d =
        k (l [HumanMessage (assignment_prompt n d (take 4000 c))]))"
proof (intro exI [of _ "\<lambda>reply. generate_assignment (\<lambda>msgs. reply) jl [] n d"] conjI allI)
  fix e show "generate_assignment (\<lambda>msgs. Inl e) jl [] n d = Inl e"
    by (simp add: generate_assignment_def)
next
  fix l c
  show "generate_assignment l jl c n d =
      generate_assignment (\<lambda>msgs. l [HumanMessage (assignment_prompt n d (take 4000 c))]) jl [] n d"
    unfolding generate_assignment_def generate_fallback_assignment_def by simp
qed

lemma generate_mcqs_through_prompt:
  "\<exists>k. (\<forall>e. k (Inl e) = Inl e) \<and>
     (\<forall>l c. generate_mcqs l jl c n d =
        k (l [HumanMessage (mcq_prompt n d (take 4000 c))]))"
proof (intro exI [of _ "\<lambda>reply. generate_mcqs (\<lambda>msgs. reply) jl [] n d"] conjI allI)
  fix e show "generate_mcqs (\<lambda>msgs. Inl e) jl [] n d = Inl e"
    by (simp add: generate_mcqs_def)
next
  fix l c
  show "generate_mcqs l jl c n d =
      generate_mcqs (\<lambda>msgs. l [HumanMessage (mcq_prompt n d (take 4000 c))]) jl [] n d"
    unfolding generate_mcqs_def generate_fallback_mcqs_def by simp
qed

lemma generate_viva_through_prompt:
  "\<exists>k. (\<forall>e. k (Inl e) = Inl e) \<and>
     (\<forall>l c. generate_viva_questions l jl c n =
        k (l [HumanMessage (viva_prompt n (take 4000 c))]))"
proof (intro exI [of _ "\<lambda>reply. generate_viva_questions (\<lambda>msgs. reply) jl [] n"] conjI allI)
  fix e show "generate_viva_questions (\<lambda>msgs. Inl e) jl [] n = Inl e"
    by (simp add: generate_viva_questions_def)
next
  fix l c
  show "generate_viva_questions l jl c n =
      generate_viva_questions (\<lambda>msgs. l [HumanMessage (viva_prompt n (take 4000 c))]) jl [] n"
    unfolding generate_viva_questions_def generate_fallback_viva_def by simp
qed

lemma str_int_2: "str_int 2 = ''2''"
proof -
  have "char_of (50::nat) = CHR ''2''" by code_simp
  then show ?thesis by (simp add: str_int_def str_nat.simps [of 2])
qed

lemma no_Z_in_mcq_prompt:
  "CHR ''Z'' \<notin> set (mcq_prompt 2 ''hard'' (replicate 4000 (CHR ''a'')))"
  by (simp add: mcq_prompt_def str_int_2)

lemma spy_parse:
  \<open>parse_json_response stub_json_loads ''[{"question_number": 1}, {"question_number": 2}]''
     = Inr (JArray [JObject [(''question_number'', JInt 1)],
                    JObject [(''question_number'', JInt 2)]])\<close>
proof -
  have \<open>parse_json_response stub_json_loads
      ([] @ CHR ''['' # ''{"question_number": 1}, {"question_number": 2}'' @ CHR '']'' # [])
     = Inr (JArray [JObject [(''question_number'', JInt 1)],
                    JObject [(''question_number'', JInt 2)]])\<close>
    by (subst parse_json_response_span) (simp_all add: stub_json_loads_def)
  then show ?thesis by simp
qed

text \<open>
  C8: in each of the three operations the context enters the prompt once, between texts that
  do not depend on it, and the one message sent to the LLM is the prompt built from
  \<open>context[:4000]\<close>: the result is a function of the LLM's answer to exactly that message
  (a fault of the LLM on it is the fault of the operation), and of nothing else of the
  context. Hence two contexts with the same first 4000 characters give, with the same LLM,
  decoder, count and difficulty, the same result.
\<close>

theorem only_the_first_4000_characters_reach_the_llm:
  "(\<exists>pre post. \<forall>ctx. assignment_prompt n d ctx = pre @ ctx @ post)
   \<and> (\<exists>pre post. \<forall>ctx. mcq_prompt n d ctx = pre @ ctx @ post)
   \<and> (\<exists>pre post. \<forall>ctx. viva_prompt n ctx = pre @ ctx @ post)
   \<and> (\<exists>k. (\<forall>e. k (Inl e) = Inl e) \<and>
         (\<forall>l c. generate_assignment l jl c n d =
            k (l [HumanMessage (assignment_prompt n d (take 4000 c))])))
   \<and> (\<exists>k. (\<forall>e. k (Inl e) = Inl e) \<and>
         (\<forall>l c. generate_mcqs l jl c n d =
            k (l [HumanMessage (mcq_prompt n d (take 4000 c))])))
   \<and> (\<exists>k. (\<forall>e. k (Inl e) = Inl e) \<and>
         (\<forall>l c. generate_viva_questions l jl c n =
            k (l [HumanMessage (viva_prompt n (take 4000 c))])))
   \<and> (take 4000 c1 = take 4000 c2 \<longrightarrow>
         generate_assignment l jl c1 n d = generate_assignment l jl c2 n d
       \<and> generate_mcqs l jl c1 n d = generate_mcqs l jl c2 n d
       \<and> generate_viva_questions l jl c1 n = generate_viva_questions l jl c2 n)"
proof (intro conjI impI)
  assume eq: "take 4000 c1 = take 4000 c2"
  show "generate_assignment l jl c1 n d = generate_assignment l jl c2 n d"
    unfolding generate_assignment_def generate_fallback_assignment_def eq by simp
  show "generate_mcqs l jl c1 n d = generate_mcqs l jl c2 n d"
    unfolding generate_mcqs_def generate_fallback_mcqs_def eq by simp
  show "generate_viva_questions l jl c1 n = generate_viva_questions l jl c2 n"
    unfolding generate_viva_questions_def generate_fallback_viva_def eq by simp
qed (rule assignment_prompt_split mcq_prompt_split viva_prompt_split
       generate_assignment_through_prompt generate_mcqs_through_prompt
       generate_viva_through_prompt)+

theorem only_the_first_4000_characters_reach_the_llm_witness:
  "replicate 4000 (CHR ''a'') @ ''ZZZ'' \<noteq> replicate 4000 (CHR ''a'') @ ''QQQ''
   \<and> take 4000 (replicate 4000 (CHR ''a'') @ ''ZZZ'')
       = take 4000 (replicate 4000 (CHR ''a'') @ ''QQQ'')
   \<and> generate_mcqs spy_llm stub_json_loads (replicate 4000 (CHR ''a'') @ ''ZZZ'') 2 ''hard''
       = Inr (JArray [JObject [(''question_number'', JInt 1)],
                      JObject [(''question_number'', JInt 2)]])
   \<and> generate_mcqs spy_llm stub_json_loads (replicate 4000 (CHR ''a'') @ ''QQQ'') 2 ''hard''
       = Inr (JArray [JObject [(''question_number'', JInt 1)],
                      JObject [(''question_number'', JInt 2)]])
   \<and> generate_mcqs echo_llm stub_json_loads (replicate 4000 (CHR ''a'') @ ''ZZZ'') 2 ''hard''
       = Inl (ProviderFault (mcq_prompt 2 ''hard'' (replicate 4000 (CHR ''a''))))"
proof -
  have d: "replicate 4000 (CHR ''a'') @ ''ZZZ'' \<noteq> replicate 4000 (CHR ''a'') @ ''QQQ''"
    by simp
  have h: "take 4000 (replicate 4000 (CHR ''a'') @ ''ZZZ'')
       = take 4000 (replicate 4000 (CHR ''a'') @ ''QQQ'')"
    by simp
  have tz: "take 4000 (replicate 4000 (CHR ''a'') @ ''ZZZ'') = replicate 4000 (CHR ''a'')"
    by simp
  have tq: "take 4000 (replicate 4000 (CHR ''a'') @ ''QQQ'') = replicate 4000 (CHR ''a'')"
    by simp
  have spy: \<open>spy_llm [HumanMessage (mcq_prompt 2 ''hard'' (replicate 4000 (CHR ''a'')))]
      = Inr ''[{"question_number": 1}, {"question_number": 2}]''\<close>
    using no_Z_in_mcq_prompt by (simp add: spy_llm_def)
  have q: "generate_mcqs spy_llm stub_json_loads (replicate 4000 (CHR ''a'') @ ''QQQ'') 2 ''hard''
       = Inr (JArray [JObject [(''question_number'', JInt 1)],
                      JObject [(''question_number'', JInt 2)]])"
    unfolding generate_mcqs_def tq spy by (simp add: spy_parse)
  note t = only_the_first_4000_characters_reach_the_llm
    [where n = 2 and d = "''hard''" and jl = stub_json_loads]
  have "generate_mcqs spy_llm stub_json_loads (replicate 4000 (CHR ''a'') @ ''ZZZ'') 2 ''hard''
      = generate_mcqs spy_llm stub_json_loads (replicate 4000 (CHR ''a'') @ ''QQQ'') 2 ''hard''"
    using t [where l = spy_llm and ?c1.0 = "replicate 4000 (CHR ''a'') @ ''ZZZ''"
        and ?c2.0 = "replicate 4000 (CHR ''a'') @ ''QQQ''"] h
    by blast
  with q have z: "generate_mcqs spy_llm stub_json_loads (replicate 4000 (CHR ''a'') @ ''ZZZ'') 2 ''hard''
       = Inr (JArray [JObject [(''question_number'', JInt 1)],
                      JObject [(''question_number'', JInt 2)]])"
    by simp
  from t obtain k where
    k1: "\<forall>e. k (Inl e) = Inl e"
    and k2: "\<forall>l c. generate_mcqs l stub_json_loads c 2 ''hard'' =
        k (l [HumanMessage (mcq_prompt 2 ''hard'' (take 4000 c))])"
    by blast
  have "generate_mcqs echo_llm stub_json_loads (replicate 4000 (CHR ''a'') @ ''ZZZ'') 2 ''hard''
      = k (echo_llm [HumanMessage (mcq_prompt 2 ''hard''
            (take 4000 (replicate 4000 (CHR ''a'') @ ''ZZZ'')))])"
    using k2 by blast
  also have "\<dots> = k (Inl (ProviderFault (mcq_prompt 2 ''hard'' (replicate 4000 (CHR ''a'')))))"
    unfolding tz by (simp add: echo_llm_def)
  also have "\<dots> = Inl (ProviderFault (mcq_prompt 2 ''hard'' (replicate 4000 (CHR ''a''))))"
    using k1 by blast
  finally have e: "generate_mcqs echo_llm stub_json_loads (replicate 4000 (CHR ''a'') @ ''ZZZ'') 2 ''hard''
       = Inl (ProviderFault (mcq_prompt 2 ''hard'' (replicate 4000 (CHR ''a''))))" .
  from d h z q e show ?thesis by (intro conjI)
qed




section \<open>Facts about the RAG engine\<close>

lemma get_session_history_fields:
  "llm (snd (get_session_history self sid)) = llm self"
  "retriever (snd (get_session_history self sid)) = retriever self"
  "docs_str (snd (get_session_history self sid)) = docs_str self"
  "calls (snd (get_session_history self sid)) = calls self"
  "collection_get (snd (get_session_history self sid)) = collection_get self"
  "store (snd (get_session_history self sid)) = (store self)(sid \<mapsto> fst (get_session_history self sid))"
  by (auto simp: get_session_history_def split: option.splits)

lemma rag_chain_unfold:
  "rag_chain s input hist =
     (case llm s (contextualize_q_prompt hist input) of
        Inl e \<Rightarrow> (Inl e, s\<lparr>calls := calls s @ [LLMCall (contextualize_q_prompt hist input)]\<rparr>)
      | Inr q \<Rightarrow>
          (case retriever s q of
             Inl e \<Rightarrow> (Inl e, s\<lparr>calls := calls s @
                         [LLMCall (contextualize_q_prompt hist input), RetrieverCall q]\<rparr>)
           | Inr docs \<Rightarrow>
               (case llm s (qa_prompt (docs_str s docs) hist input) of
                  Inl e \<Rightarrow> (Inl e, s\<lparr>calls := calls s @
                         [LLMCall (contextualize_q_prompt hist input), RetrieverCall q,
                          LLMCall (qa_prompt (docs_str s docs) hist input)]\<rparr>)
                | Inr a \<Rightarrow>
                    (Inr \<lparr>rd_input = input, rd_chat_history = hist,
                          rd_context = docs, rd_answer = a\<rparr>,
                     s\<lparr>calls := calls s @
                         [LLMCall (contextualize_q_prompt hist input), RetrieverCall q,
                          LLMCall (qa_prompt (docs_str s docs) hist input)]\<rparr>))))"
  by (simp add: rag_chain_def get_docs_def history_aware_query_chain_def
      question_answer_chain_def llm_invoke_def retriever_invoke_def split: sum.splits)

lemma conversational_rag_chain_unfold:
  "conversational_rag_chain self input sid =
     (case rag_chain (snd (get_session_history self sid)) input (fst (get_session_history self sid)) of
        (Inl e, s2) \<Rightarrow> (Inl e, s2)
      | (Inr r, s2) \<Rightarrow>
          (Inr r, s2\<lparr>store := (store s2)(sid \<mapsto>
             fst (get_session_history self sid) @ [HumanMessage input, AIMessage (rd_answer r)])\<rparr>))"
  by (simp add: conversational_rag_chain_def split_beta)

lemma answer_query_unfold:
  "answer_query self query sid =
     (let hist = fst (get_session_history self sid);
          m1 = contextualize_q_prompt hist query
      in case llm self m1 of
        Inl e \<Rightarrow> (Inl e, (snd (get_session_history self sid))\<lparr>calls := calls self @ [LLMCall m1]\<rparr>)
      | Inr q \<Rightarrow>
          (case retriever self q of
             Inl e \<Rightarrow> (Inl e, (snd (get_session_history self sid))
                          \<lparr>calls := calls self @ [LLMCall m1, RetrieverCall q]\<rparr>)
           | Inr docs \<Rightarrow>
               (let m2 = qa_prompt (docs_str self docs) hist query
                in case llm self m2 of
                  Inl e \<Rightarrow> (Inl e, (snd (get_session_history self sid))
                          \<lparr>calls := calls self @ [LLMCall m1, RetrieverCall q, LLMCall m2]\<rparr>)
                | Inr a \<Rightarrow>
                    (Inr \<lparr>answer = a,
                          sources = (if docs \<noteq> [] then remdups (map source_of docs) else []),
                          mode = ''qa''\<rparr>,
                     (snd (get_session_history self sid))
                       \<lparr>calls := calls self @ [LLMCall m1, RetrieverCall q, LLMCall m2],
                        store := (store self)(sid \<mapsto> hist @ [HumanMessage query, AIMessage a])\<rparr>))))"
proof (cases "llm self (contextualize_q_prompt (fst (get_session_history self sid)) query)")
  case (Inl e)
  then show ?thesis
    by (simp add: answer_query_def conversational_rag_chain_unfold rag_chain_unfold
        get_session_history_fields Let_def)
next
  case q: (Inr q)
  show ?thesis
  proof (cases "retriever self q")
    case (Inl e)
    with q show ?thesis
      by (simp add: answer_query_def conversational_rag_chain_unfold rag_chain_unfold
          get_session_history_fields Let_def)
  next
    case docs: (Inr docs)
    show ?thesis
    proof (cases "llm self (qa_prompt (docs_str self docs) (fst (get_session_history self sid)) query)")
      case (Inl e)
      with q docs show ?thesis
        by (simp add: answer_query_def conversational_rag_chain_unfold rag_chain_unfold
            get_session_history_fields Let_def)
    next
      case (Inr a)
      with q docs show ?thesis
        by (simp add: answer_query_def conversational_rag_chain_unfold rag_chain_unfold
            get_session_history_fields Let_def)
    qed
  qed
qed

lemma answer_query_success:
  assumes "answer_query self query sid = (Inr r, self')"
  shows "\<exists>q' docs a.
           llm self (contextualize_q_prompt (fst (get_session_history self sid)) query) = Inr q'
         \<and> retriever self q' = Inr docs
         \<and> llm self (qa_prompt (docs_str self docs) (fst (get_session_history self sid)) query) = Inr a
         \<and> r = \<lparr>answer = a,
                 sources = (if docs \<noteq> [] then remdups (map source_of docs) else []),
                 mode = ''qa''\<rparr>
         \<and> store self' = (store self)(sid \<mapsto>
               fst (get_session_history self sid) @ [HumanMessage query, AIMessage a])
         \<and> calls self' = calls self @
               [LLMCall (contextualize_q_prompt (fst (get_session_history self sid)) query),
                RetrieverCall q',
                LLMCall (qa_prompt (docs_str self docs) (fst (get_session_history self sid)) query)]"
proof (cases "llm self (contextualize_q_prompt (fst (get_session_history self sid)) query)")
  case (Inl e)
  with assms show ?thesis by (simp add: answer_query_unfold Let_def)
next
  case q: (Inr q)
  show ?thesis
  proof (cases "retriever self q")
    case (Inl e)
    with assms q show ?thesis by (simp add: answer_query_unfold Let_def)
  next
    case docs: (Inr docs)
    show ?thesis
    proof (cases "llm self (qa_prompt (docs_str self docs) (fst (get_session_history self sid)) query)")
      case (Inl e)
      with assms q docs show ?thesis by (simp add: answer_query_unfold Let_def)
    next
      case a: (Inr a)
      from assms q docs a have
        "r = \<lparr>answer = a,
              sources = (if docs \<noteq> [] then remdups (map source_of docs) else []),
              mode = ''qa''\<rparr>"
        and "self' = (snd (get_session_history self sid))
               \<lparr>calls := calls self @
                  [LLMCall (contextualize_q_prompt (fst (get_session_history self sid)) query),
                   RetrieverCall q,
                   LLMCall (qa_prompt (docs_str self docs) (fst (get_session_history self sid)) query)],
                store := (store self)(sid \<mapsto>
                  fst (get_session_history self sid) @ [HumanMessage query, AIMessage a])\<rparr>"
        by (simp_all add: answer_query_unfold Let_def)
      with q docs a show ?thesis by simp
    qed
  qed
qed

lemma history_of_new_session:
  "store self sid = None \<Longrightarrow>
   get_session_history self sid = ([], self\<lparr>store := (store self)(sid \<mapsto> [])\<rparr>)"
  by (simp add: get_session_history_def)

lemma filter_chunks_enumerate:
  "k + length mds \<le> length docs \<Longrightarrow>
   filter_chunks docs ids (enumerate k mds) acc =
     Inr (acc @ map fst (filter (\<lambda>(doc, md). metadata_matches md ids) (zip (drop k docs) mds)))"
proof (induction mds arbitrary: k acc)
  case Nil
  then show ?case by simp
next
  case (Cons md mds)
  then have k: "k < length docs" and rest: "Suc k + length mds \<le> length docs" by simp_all
  from k have d: "drop k docs = docs ! k # drop (Suc k) docs"
    by (simp add: Cons_nth_drop_Suc)
  show ?case
    using Cons.IH [OF rest] k by (simp add: d)
qed

lemma documents_context_body_ok:
  assumes "collection_get self = Inr all_data"
    and "length (documents all_data) = length (metadatas all_data)"
  shows "documents_context_body self ids =
     Inr (str_join ''\<newline>\<newline>'' (take 20 (map fst
       (filter (\<lambda>(doc, md). metadata_matches md ids)
          (zip (documents all_data) (metadatas all_data))))))"
proof -
  have "filter_chunks (documents all_data) ids (enumerate 0 (metadatas all_data)) [] =
     Inr ([] @ map fst (filter (\<lambda>(doc, md). metadata_matches md ids)
        (zip (drop 0 (documents all_data)) (metadatas all_data))))"
    using assms(2) by (intro filter_chunks_enumerate) simp
  with assms show ?thesis
    by (simp add: documents_context_body_def)
qed

subsection \<open>The worked example\<close>

lemma system_prompt_differs: "system_prompt c \<noteq> contextualize_q_system_prompt"
  by (simp add: system_prompt_def contextualize_q_system_prompt_def)

lemma demo_history: "get_session_history demo_engine ''s1'' =
    ([], demo_engine\<lparr>store := (store demo_engine)(''s1'' \<mapsto> [])\<rparr>)"
  by (rule history_of_new_session) (simp add: demo_engine_def)

lemma demo_reformulation:
  "llm demo_engine (contextualize_q_prompt [] ''What is a stack?'')
     = Inr ''Define the stack data structure.''"
  by (simp add: demo_engine_def demo_llm_def contextualize_q_prompt_def)

lemma demo_retrieval: "retriever demo_engine q = Inr demo_docs"
  by (simp add: demo_engine_def demo_retriever_def)

lemma demo_answer:
  "llm demo_engine (qa_prompt (docs_str demo_engine demo_docs) [] ''What is a stack?'')
     = Inr ''A stack is a last-in first-out structure.''"
  by (simp add: demo_engine_def demo_llm_def qa_prompt_def system_prompt_differs)

lemma demo_answer_query:
  "answer_query demo_engine ''What is a stack?'' ''s1'' =
     (Inr \<lparr>answer = ''A stack is a last-in first-out structure.'',
           sources = [''Unknown'', ''ds.pdf''], mode = ''qa''\<rparr>,
      demo_engine
        \<lparr>store := [''s1'' \<mapsto> [HumanMessage ''What is a stack?'',
                              AIMessage ''A stack is a last-in first-out structure.'']],
         calls := [LLMCall (contextualize_q_prompt [] ''What is a stack?''),
                   RetrieverCall ''Define the stack data structure.'',
                   LLMCall (qa_prompt (demo_docs_str demo_docs) [] ''What is a stack?'')]\<rparr>)"
proof -
  have d: "docs_str demo_engine = demo_docs_str" "calls demo_engine = []"
    "store demo_engine = Map.empty"
    by (simp_all add: demo_engine_def)
  have s: "map source_of demo_docs = [''ds.pdf'', ''Unknown'', ''ds.pdf'']"
    by (simp add: demo_docs_def source_of_def)
  have n: "demo_docs \<noteq> []" by (simp add: demo_docs_def)
  show ?thesis
    using demo_reformulation demo_retrieval demo_answer
    by (simp add: answer_query_unfold demo_history Let_def d s n)
qed

lemma demo_llm_reformulates:
  "demo_llm (contextualize_q_prompt h q) = Inr ''Define the stack data structure.''"
  by (simp add: demo_llm_def contextualize_q_prompt_def)

lemma demo_llm_answers:
  "demo_llm (qa_prompt c h q) = Inr ''A stack is a last-in first-out structure.''"
  by (simp add: demo_llm_def qa_prompt_def system_prompt_differs)

lemma sourced_answer_query:
  "fst (answer_query sourced_engine ''What is a stack?'' ''s1'') =
     Inr \<lparr>answer = ''A stack is a last-in first-out structure.'',
          sources = [''algo.pdf'', ''ds.pdf''], mode = ''qa''\<rparr>"
proof -
  have d: "llm sourced_engine = demo_llm" "retriever sourced_engine = sourced_retriever"
    by (simp_all add: sourced_engine_def demo_engine_def)
  have s: "map source_of sourced_docs = [''ds.pdf'', ''algo.pdf'', ''ds.pdf'']"
    by (simp add: sourced_docs_def source_of_def)
  have n: "sourced_docs \<noteq> []" by (simp add: sourced_docs_def)
  show ?thesis
    by (simp add: answer_query_unfold Let_def d demo_llm_reformulates demo_llm_answers
        sourced_retriever_def s n)
qed

lemma warm_history:
  "fst (get_session_history warm_engine ''s1'') =
     [HumanMessage ''What is a stack?'', AIMessage ''A stack is a last-in first-out structure.'']"
  by (simp add: get_session_history_def warm_engine_def demo_engine_def)

lemma spec_store_first_20:
  "take 20 (map fst (filter (\<lambda>(doc, md). metadata_matches md [''doc1''])
      (zip (documents spec_collection) (metadatas spec_collection))))
   = map spec_chunk [0..<20]"
  by code_simp

lemma spec_store_matching:
  "length (filter (\<lambda>md. metadata_matches md [''doc1'']) (metadatas spec_collection)) = 25"
  by code_simp

subsection \<open>The claims on \<open>answer_query\<close>\<close>

text \<open>
  C1, as amended: the reformulation chain runs on every call of \<open>answer_query\<close>, whether the
  session's history is empty or not. The first call that leaves the process is the LLM call
  with the reformulation prompt (the system instruction, the history, the user's query), and
  when it replies, the retriever is queried with the reply, not with the user's query.
\<close>

theorem reformulation_runs_on_every_call:
  "\<exists>rest. calls (snd (answer_query self query sid)) =
       calls self @ LLMCall (contextualize_q_prompt (fst (get_session_history self sid)) query) # rest
     \<and> (\<forall>q'. llm self (contextualize_q_prompt (fst (get_session_history self sid)) query) = Inr q'
           \<longrightarrow> (\<exists>rest'. rest = RetrieverCall q' # rest'))"
proof (cases "llm self (contextualize_q_prompt (fst (get_session_history self sid)) query)")
  case (Inl e)
  then show ?thesis by (simp add: answer_query_unfold Let_def get_session_history_fields)
next
  case q: (Inr q)
  show ?thesis
  proof (cases "retriever self q")
    case (Inl e)
    with q show ?thesis by (simp add: answer_query_unfold Let_def get_session_history_fields)
  next
    case docs: (Inr docs)
    show ?thesis
    proof (cases "llm self (qa_prompt (docs_str self docs) (fst (get_session_history self sid)) query)")
      case (Inl e)
      with q docs show ?thesis by (simp add: answer_query_unfold Let_def get_session_history_fields)
    next
      case (Inr a)
      with q docs show ?thesis by (simp add: answer_query_unfold Let_def get_session_history_fields)
    qed
  qed
qed

theorem reformulation_runs_on_every_call_witness:
  "llm demo_engine
      (contextualize_q_prompt (fst (get_session_history demo_engine ''s1'')) ''What is a stack?'')
     = Inr ''Define the stack data structure.''
   \<and> (\<exists>rest. calls (snd (answer_query demo_engine ''What is a stack?'' ''s1'')) =
         calls demo_engine
         @ LLMCall (contextualize_q_prompt [] ''What is a stack?'')
         # RetrieverCall ''Define the stack data structure.'' # rest)
   \<and> (\<exists>rest. calls (snd (answer_query warm_engine ''And how big is it?'' ''s1'')) =
         calls warm_engine
         @ LLMCall (contextualize_q_prompt
              [HumanMessage ''What is a stack?'',
               AIMessage ''A stack is a last-in first-out structure.''] ''And how big is it?'')
         # RetrieverCall ''Define the stack data structure.'' # rest)"
proof -
  have h: "fst (get_session_history demo_engine ''s1'') = []"
    by (simp add: demo_history)
  have q: "llm demo_engine
      (contextualize_q_prompt (fst (get_session_history demo_engine ''s1'')) ''What is a stack?'')
     = Inr ''Define the stack data structure.''"
    by (simp add: demo_history demo_reformulation)
  from reformulation_runs_on_every_call [of demo_engine "''What is a stack?''" "''s1''"]
  obtain rest where
    c: "calls (snd (answer_query demo_engine ''What is a stack?'' ''s1'')) =
         calls demo_engine
         @ LLMCall (contextualize_q_prompt (fst (get_session_history demo_engine ''s1''))
              ''What is a stack?'') # rest"
    and r: "\<forall>q'. llm demo_engine
        (contextualize_q_prompt (fst (get_session_history demo_engine ''s1'')) ''What is a stack?'')
          = Inr q' \<longrightarrow> (\<exists>rest'. rest = RetrieverCall q' # rest')"
    by blast
  from r q obtain rest' where "rest = RetrieverCall ''Define the stack data structure.'' # rest'"
    by blast
  with c h have cold: "\<exists>rest. calls (snd (answer_query demo_engine ''What is a stack?'' ''s1'')) =
         calls demo_engine
         @ LLMCall (contextualize_q_prompt [] ''What is a stack?'')
         # RetrieverCall ''Define the stack data structure.'' # rest"
    by simp
  have qw: "llm warm_engine
      (contextualize_q_prompt (fst (get_session_history warm_engine ''s1'')) ''And how big is it?'')
     = Inr ''Define the stack data structure.''"
    by (simp add: warm_engine_def demo_engine_def demo_llm_reformulates)
  from reformulation_runs_on_every_call [of warm_engine "''And how big is it?''" "''s1''"]
  obtain rest2 where
    c2: "calls (snd (answer_query warm_engine ''And how big is it?'' ''s1'')) =
         calls warm_engine
         @ LLMCall (contextualize_q_prompt (fst (get_session_history warm_engine ''s1''))
              ''And how big is it?'') # rest2"
    and r2: "\<forall>q'. llm warm_engine
        (contextualize_q_prompt (fst (get_session_history warm_engine ''s1'')) ''And how big is it?'')
          = Inr q' \<longrightarrow> (\<exists>rest'. rest2 = RetrieverCall q' # rest')"
    by blast
  from r2 qw obtain rest2' where "rest2 = RetrieverCall ''Define the stack data structure.'' # rest2'"
    by blast
  with c2 have warm: "\<exists>rest. calls (snd (answer_query warm_engine ''And how big is it?'' ''s1'')) =
         calls warm_engine
         @ LLMCall (contextualize_q_prompt
              [HumanMessage ''What is a stack?'',
               AIMessage ''A stack is a last-in first-out structure.''] ''And how big is it?'')
         # RetrieverCall ''Define the stack data structure.'' # rest"
    by (simp add: warm_history)
  from q cold warm show ?thesis by (intro conjI)
qed

text \<open>
  C1 as stated fails: on a session with no history the reformulation call is made all the
  same, and the retriever receives the LLM's text.
\<close>

theorem empty_history_still_reformulates_counterexample:
  "store demo_engine ''s1'' = None
   \<and> calls (snd (answer_query demo_engine ''What is a stack?'' ''s1'')) =
       [LLMCall (contextualize_q_prompt [] ''What is a stack?''),
        RetrieverCall ''Define the stack data structure.'',
        LLMCall (qa_prompt (demo_docs_str demo_docs) [] ''What is a stack?'')]
   \<and> RetrieverCall ''What is a stack?''
       \<notin> set (calls (snd (answer_query demo_engine ''What is a stack?'' ''s1'')))"
  by (simp add: demo_answer_query) (simp add: demo_engine_def)

text \<open>
  C3: for a session id that is not in the store, \<open>get_session_history\<close> creates an empty
  history, the chain runs on that empty history, and after a successful \<open>answer_query\<close> the
  session's history is the user's query followed by the answer, and nothing else.
\<close>

theorem first_call_of_a_new_session:
  assumes new: "store self sid = None"
    and ok: "answer_query self query sid = (Inr r, self')"
  shows "get_session_history self sid = ([], self\<lparr>store := (store self)(sid \<mapsto> [])\<rparr>)
       \<and> store self' sid = Some [HumanMessage query, AIMessage (answer r)]
       \<and> (\<exists>rest. calls self' = calls self @ LLMCall (contextualize_q_prompt [] query) # rest)"
proof -
  have g: "get_session_history self sid = ([], self\<lparr>store := (store self)(sid \<mapsto> [])\<rparr>)"
    using new by (rule history_of_new_session)
  then have h: "fst (get_session_history self sid) = []" by simp
  from answer_query_success [OF ok] obtain q' docs a where
    r: "r = \<lparr>answer = a,
              sources = (if docs \<noteq> [] then remdups (map source_of docs) else []),
              mode = ''qa''\<rparr>"
    and s: "store self' = (store self)(sid \<mapsto>
               fst (get_session_history self sid) @ [HumanMessage query, AIMessage a])"
    and c: "calls self' = calls self @
               [LLMCall (contextualize_q_prompt (fst (get_session_history self sid)) query),
                RetrieverCall q',
                LLMCall (qa_prompt (docs_str self docs) (fst (get_session_history self sid)) query)]"
    by blast
  from r s h have "store self' sid = Some [HumanMessage query, AIMessage (answer r)]" by simp
  moreover from c h have
    "\<exists>rest. calls self' = calls self @ LLMCall (contextualize_q_prompt [] query) # rest" by simp
  ultimately show ?thesis using g by simp
qed

theorem first_call_of_a_new_session_witness:
  "store demo_engine ''s1'' = None
   \<and> fst (answer_query demo_engine ''What is a stack?'' ''s1'') =
       Inr \<lparr>answer = ''A stack is a last-in first-out structure.'',
            sources = [''Unknown'', ''ds.pdf''], mode = ''qa''\<rparr>
   \<and> store (snd (answer_query demo_engine ''What is a stack?'' ''s1'')) ''s1'' =
       Some [HumanMessage ''What is a stack?'',
             AIMessage ''A stack is a last-in first-out structure.'']"
proof -
  have new: "store demo_engine ''s1'' = None" by (simp add: demo_engine_def)
  have ok: "answer_query demo_engine ''What is a stack?'' ''s1'' =
      (Inr \<lparr>answer = ''A stack is a last-in first-out structure.'',
            sources = [''Unknown'', ''ds.pdf''], mode = ''qa''\<rparr>,
       snd (answer_query demo_engine ''What is a stack?'' ''s1''))"
    by (simp add: demo_answer_query)
  have f: "fst (answer_query demo_engine ''What is a stack?'' ''s1'') =
      Inr \<lparr>answer = ''A stack is a last-in first-out structure.'',
           sources = [''Unknown'', ''ds.pdf''], mode = ''qa''\<rparr>"
    by (simp add: demo_answer_query)
  from first_call_of_a_new_session [OF new ok]
  have "store (snd (answer_query demo_engine ''What is a stack?'' ''s1'')) ''s1'' =
       Some [HumanMessage ''What is a stack?'',
             AIMessage ''A stack is a last-in first-out structure.'']"
    by simp
  with new f show ?thesis by (intro conjI)
qed

text \<open>
  C4: after a successful \<open>answer_query\<close>, \<open>sources\<close> has no duplicates and is, as a set, the
  set of the sources of the retrieved chunks, where the source of a chunk is
  \<open>metadata.get("source", "Unknown")\<close>; when every retrieved chunk has a \<open>source\<close> field it
  is exactly the set of the values of that field.
\<close>

theorem sources_are_the_distinct_sources_of_the_context:
  assumes ok: "answer_query self query sid = (Inr r, self')"
  shows "\<exists>q' docs.
           llm self (contextualize_q_prompt (fst (get_session_history self sid)) query) = Inr q'
         \<and> retriever self q' = Inr docs
         \<and> distinct (sources r)
         \<and> set (sources r) = source_of ` set docs
         \<and> ((\<forall>d\<in>set docs. map_of (metadata d) ''source'' \<noteq> None) \<longrightarrow>
              set (sources r) = {v. \<exists>d\<in>set docs. map_of (metadata d) ''source'' = Some v})"
proof -
  from answer_query_success [OF ok] obtain q' docs a where
    q: "llm self (contextualize_q_prompt (fst (get_session_history self sid)) query) = Inr q'"
    and d: "retriever self q' = Inr docs"
    and r: "r = \<lparr>answer = a,
              sources = (if docs \<noteq> [] then remdups (map source_of docs) else []),
              mode = ''qa''\<rparr>"
    by blast
  from r have dist: "distinct (sources r)" by simp
  from r have set: "set (sources r) = source_of ` set docs" by (cases "docs = []") simp_all
  have "set (sources r) = {v. \<exists>d\<in>set docs. map_of (metadata d) ''source'' = Some v}"
    if all: "\<forall>d\<in>set docs. map_of (metadata d) ''source'' \<noteq> None"
  proof -
    have "source_of ` set docs = {v. \<exists>d\<in>set docs. map_of (metadata d) ''source'' = Some v}"
      using all by (force simp: source_of_def image_def split: option.splits)
    with set show ?thesis by simp
  qed
  with q d dist set show ?thesis by blast
qed

theorem sources_are_the_distinct_sources_of_the_context_witness:
  "fst (answer_query demo_engine ''What is a stack?'' ''s1'') =
       Inr \<lparr>answer = ''A stack is a last-in first-out structure.'',
            sources = [''Unknown'', ''ds.pdf''], mode = ''qa''\<rparr>
   \<and> set [''Unknown'', ''ds.pdf''] = source_of ` set demo_docs
   \<and> fst (answer_query sourced_engine ''What is a stack?'' ''s1'') =
       Inr \<lparr>answer = ''A stack is a last-in first-out structure.'',
            sources = [''algo.pdf'', ''ds.pdf''], mode = ''qa''\<rparr>
   \<and> set [''algo.pdf'', ''ds.pdf''] =
       {v. \<exists>d\<in>set sourced_docs. map_of (metadata d) ''source'' = Some v}"
proof -
  have ok: "answer_query demo_engine ''What is a stack?'' ''s1'' =
      (Inr \<lparr>answer = ''A stack is a last-in first-out structure.'',
            sources = [''Unknown'', ''ds.pdf''], mode = ''qa''\<rparr>,
       snd (answer_query demo_engine ''What is a stack?'' ''s1''))"
    by (simp add: demo_answer_query)
  have f: "fst (answer_query demo_engine ''What is a stack?'' ''s1'') =
      Inr \<lparr>answer = ''A stack is a last-in first-out structure.'',
           sources = [''Unknown'', ''ds.pdf''], mode = ''qa''\<rparr>"
    by (simp add: demo_answer_query)
  from sources_are_the_distinct_sources_of_the_context [OF ok] obtain q' docs where
    "retriever demo_engine q' = Inr docs"
    and "set (sources \<lparr>answer = ''A stack is a last-in first-out structure.'',
            sources = [''Unknown'', ''ds.pdf''], mode = ''qa''\<rparr>) = source_of ` set docs"
    by blast
  then have a: "set [''Unknown'', ''ds.pdf''] = source_of ` set demo_docs"
    by (simp add: demo_retrieval)
  have f2: "fst (answer_query sourced_engine ''What is a stack?'' ''s1'') =
       Inr \<lparr>answer = ''A stack is a last-in first-out structure.'',
            sources = [''algo.pdf'', ''ds.pdf''], mode = ''qa''\<rparr>"
    by (rule sourced_answer_query)
  then have ok2: "answer_query sourced_engine ''What is a stack?'' ''s1'' =
      (Inr \<lparr>answer = ''A stack is a last-in first-out structure.'',
            sources = [''algo.pdf'', ''ds.pdf''], mode = ''qa''\<rparr>,
       snd (answer_query sourced_engine ''What is a stack?'' ''s1''))"
    by (metis prod.collapse)
  have all: "\<forall>d\<in>set sourced_docs. map_of (metadata d) ''source'' \<noteq> None"
    by (simp add: sourced_docs_def)
  from sources_are_the_distinct_sources_of_the_context [OF ok2] obtain q2 docs2 where
    r2: "retriever sourced_engine q2 = Inr docs2"
    and s2: "(\<forall>d\<in>set docs2. map_of (metadata d) ''source'' \<noteq> None) \<longrightarrow>
       set (sources \<lparr>answer = ''A stack is a last-in first-out structure.'',
            sources = [''algo.pdf'', ''ds.pdf''], mode = ''qa''\<rparr>) =
       {v. \<exists>d\<in>set docs2. map_of (metadata d) ''source'' = Some v}"
    by blast
  from r2 have "docs2 = sourced_docs"
    by (simp add: sourced_engine_def sourced_retriever_def)
  with s2 all have b: "set [''algo.pdf'', ''ds.pdf''] =
       {v. \<exists>d\<in>set sourced_docs. map_of (metadata d) ''source'' = Some v}"
    by simp
  from f a f2 b show ?thesis by (intro conjI)
qed

text \<open>
  C9: after a successful \<open>answer_query\<close>, a retrieved chunk whose metadata has no \<open>source\<close>
  field puts \<open>"Unknown"\<close> into \<open>sources\<close>.
\<close>

theorem chunk_without_source_counts_as_unknown:
  assumes ok: "answer_query self query sid = (Inr r, self')"
    and q: "llm self (contextualize_q_prompt (fst (get_session_history self sid)) query) = Inr q'"
    and docs: "retriever self q' = Inr docs"
    and d: "d \<in> set docs"
    and none: "map_of (metadata d) ''source'' = None"
  shows "''Unknown'' \<in> set (sources r)"
proof -
  from answer_query_success [OF ok] q docs obtain a where
    r: "r = \<lparr>answer = a,
              sources = (if docs \<noteq> [] then remdups (map source_of docs) else []),
              mode = ''qa''\<rparr>"
    by auto
  from none have "source_of d = ''Unknown''" by (simp add: source_of_def)
  with d have "''Unknown'' \<in> source_of ` set docs" by force
  with r d show ?thesis by auto
qed

theorem chunk_without_source_counts_as_unknown_witness:
  "\<lparr>page_content = ''Queues are FIFO.'', metadata = [(''doc_id'', ''doc2'')]\<rparr> \<in> set demo_docs
   \<and> map_of (metadata \<lparr>page_content = ''Queues are FIFO.'', metadata = [(''doc_id'', ''doc2'')]\<rparr>)
        ''source'' = None
   \<and> fst (answer_query demo_engine ''What is a stack?'' ''s1'') =
       Inr \<lparr>answer = ''A stack is a last-in first-out structure.'',
            sources = [''Unknown'', ''ds.pdf''], mode = ''qa''\<rparr>
   \<and> ''Unknown'' \<in> set (sources \<lparr>answer = ''A stack is a last-in first-out structure.'',
            sources = [''Unknown'', ''ds.pdf''], mode = ''qa''\<rparr>)"
proof -
  have ok: "answer_query demo_engine ''What is a stack?'' ''s1'' =
      (Inr \<lparr>answer = ''A stack is a last-in first-out structure.'',
            sources = [''Unknown'', ''ds.pdf''], mode = ''qa''\<rparr>,
       snd (answer_query demo_engine ''What is a stack?'' ''s1''))"
    by (simp add: demo_answer_query)
  have f: "fst (answer_query demo_engine ''What is a stack?'' ''s1'') =
      Inr \<lparr>answer = ''A stack is a last-in first-out structure.'',
           sources = [''Unknown'', ''ds.pdf''], mode = ''qa''\<rparr>"
    by (simp add: demo_answer_query)
  have q: "llm demo_engine
      (contextualize_q_prompt (fst (get_session_history demo_engine ''s1'')) ''What is a stack?'')
     = Inr ''Define the stack data structure.''"
    by (simp add: demo_history demo_reformulation)
  have docs: "retriever demo_engine ''Define the stack data structure.'' = Inr demo_docs"
    by (rule demo_retrieval)
  have d: "\<lparr>page_content = ''Queues are FIFO.'', metadata = [(''doc_id'', ''doc2'')]\<rparr>
      \<in> set demo_docs"
    by (simp add: demo_docs_def)
  have none: "map_of (metadata \<lparr>page_content = ''Queues are FIFO.'',
      metadata = [(''doc_id'', ''doc2'')]\<rparr>) ''source'' = None"
    by simp
  from d none f chunk_without_source_counts_as_unknown [OF ok q docs d none]
  show ?thesis by (intro conjI)
qed

subsection \<open>The claims on \<open>get_documents_context\<close>\<close>

text \<open>
  C5, as amended: when the call to the vector store fails, \<open>get_documents_context\<close> catches
  the fault and returns the empty string; the store is called once and not again.
\<close>

theorem store_fault_gives_empty_context:
  assumes "collection_get self = Inl e"
  shows "get_documents_context self ids = (Inr [], self\<lparr>calls := calls self @ [CollectionGet]\<rparr>)"
  using assms by (simp add: get_documents_context_def documents_context_body_def)

theorem store_fault_gives_empty_context_witness:
  "collection_get broken_store_engine = Inl (ProviderFault ''connection refused'')
   \<and> get_documents_context broken_store_engine [''doc1''] =
       (Inr [], broken_store_engine\<lparr>calls := [CollectionGet]\<rparr>)"
proof -
  have h: "collection_get broken_store_engine = Inl (ProviderFault ''connection refused'')"
    by (simp add: broken_store_engine_def)
  have c: "calls broken_store_engine = []"
    by (simp add: broken_store_engine_def demo_engine_def)
  from store_fault_gives_empty_context [OF h, of "[''doc1'']"] h c
  show ?thesis by simp
qed

text \<open>
  C5 as stated fails: the fault of the store does not reach the caller, who receives the
  empty string.
\<close>

theorem store_fault_is_swallowed_counterexample:
  "collection_get broken_store_engine = Inl (ProviderFault ''connection refused'')
   \<and> fst (get_documents_context broken_store_engine [''doc1'']) = Inr []
   \<and> fst (get_documents_context broken_store_engine [''doc1''])
       \<noteq> Inl (ProviderFault ''connection refused'')"
  by (simp add: get_documents_context_def documents_context_body_def broken_store_engine_def
      demo_engine_def)

text \<open>
  C6: \<open>get_documents_context\<close> never raises. When the store answers with as many texts as
  metadata entries, the result is the first 20 texts, in store order, whose \<open>doc_id\<close> is among
  the given ids, joined by a blank line; it is the empty string when the store has no
  documents and when no chunk matches.
\<close>

theorem documents_context_is_first_20_matching_chunks:
  "(\<exists>s. fst (get_documents_context self ids) = Inr s)
   \<and> (collection_get self = Inr all_data
        \<and> length (documents all_data) = length (metadatas all_data) \<longrightarrow>
      fst (get_documents_context self ids) =
        Inr (str_join ''\<newline>\<newline>'' (take 20 (map fst
          (filter (\<lambda>(doc, md). metadata_matches md ids)
             (zip (documents all_data) (metadatas all_data)))))))
   \<and> (collection_get self = Inr all_data \<and> documents all_data = [] \<longrightarrow>
      fst (get_documents_context self ids) = Inr [])
   \<and> (collection_get self = Inr all_data
        \<and> length (documents all_data) = length (metadatas all_data)
        \<and> (\<forall>md\<in>set (metadatas all_data). \<not> metadata_matches md ids) \<longrightarrow>
      fst (get_documents_context self ids) = Inr [])"
proof (intro conjI impI)
  show "\<exists>s. fst (get_documents_context self ids) = Inr s"
    by (simp add: get_documents_context_def split: sum.splits)
next
  assume "collection_get self = Inr all_data
        \<and> length (documents all_data) = length (metadatas all_data)"
  then show "fst (get_documents_context self ids) =
        Inr (str_join ''\<newline>\<newline>'' (take 20 (map fst
          (filter (\<lambda>(doc, md). metadata_matches md ids)
             (zip (documents all_data) (metadatas all_data))))))"
    by (simp add: get_documents_context_def documents_context_body_ok)
next
  assume "collection_get self = Inr all_data \<and> documents all_data = []"
  then show "fst (get_documents_context self ids) = Inr []"
    by (simp add: get_documents_context_def documents_context_body_def)
next
  assume h: "collection_get self = Inr all_data
        \<and> length (documents all_data) = length (metadatas all_data)
        \<and> (\<forall>md\<in>set (metadatas all_data). \<not> metadata_matches md ids)"
  then have "filter (\<lambda>(doc, md). metadata_matches md ids)
      (zip (documents all_data) (metadatas all_data)) = []"
    by (auto simp: filter_empty_conv dest: set_zip_rightD)
  with h show "fst (get_documents_context self ids) = Inr []"
    by (simp add: get_documents_context_def documents_context_body_ok)
qed

theorem documents_context_is_first_20_matching_chunks_witness:
  "fst (get_documents_context demo_engine [''doc1'']) =
       Inr ''Stacks are LIFO.\<newline>\<newline>Push and pop.''
   \<and> fst (get_documents_context demo_engine [''doc7'']) = Inr []
   \<and> fst (get_documents_context empty_store_engine [''doc1'']) = Inr []
   \<and> length (filter (\<lambda>md. metadata_matches md [''doc1'']) (metadatas spec_collection)) = 25
   \<and> fst (get_documents_context spec_engine [''doc1'']) =
       Inr (str_join ''\<newline>\<newline>'' (map spec_chunk [0..<20]))"
proof -
  have h: "collection_get demo_engine = Inr demo_collection
        \<and> length (documents demo_collection) = length (metadatas demo_collection)"
    by (simp add: demo_engine_def demo_collection_def)
  have a: "fst (get_documents_context demo_engine [''doc1'']) =
       Inr ''Stacks are LIFO.\<newline>\<newline>Push and pop.''"
    using documents_context_is_first_20_matching_chunks
      [of demo_engine "[''doc1'']" demo_collection, THEN conjunct2, THEN conjunct1,
       rule_format, OF h]
    by (simp add: demo_collection_def metadata_matches_def)
  have h7: "collection_get demo_engine = Inr demo_collection
        \<and> length (documents demo_collection) = length (metadatas demo_collection)
        \<and> (\<forall>md\<in>set (metadatas demo_collection). \<not> metadata_matches md [''doc7''])"
    by (simp add: demo_engine_def demo_collection_def metadata_matches_def)
  have b: "fst (get_documents_context demo_engine [''doc7'']) = Inr []"
    using documents_context_is_first_20_matching_chunks
      [of demo_engine "[''doc7'']" demo_collection, THEN conjunct2, THEN conjunct2,
       THEN conjunct2, rule_format, OF h7] .
  have he: "collection_get empty_store_engine = Inr \<lparr>documents = [], metadatas = []\<rparr>
        \<and> documents \<lparr>documents = [], metadatas = []\<rparr> = []"
    by (simp add: empty_store_engine_def)
  have e: "fst (get_documents_context empty_store_engine [''doc1'']) = Inr []"
    using documents_context_is_first_20_matching_chunks
      [of empty_store_engine "[''doc1'']" "\<lparr>documents = [], metadatas = []\<rparr>",
       THEN conjunct2, THEN conjunct2, THEN conjunct1, rule_format, OF he] .
  have hs: "collection_get spec_engine = Inr spec_collection
        \<and> length (documents spec_collection) = length (metadatas spec_collection)"
    by (simp add: spec_engine_def spec_collection_def)
  have c: "fst (get_documents_context spec_engine [''doc1'']) =
       Inr (str_join ''\<newline>\<newline>'' (map spec_chunk [0..<20]))"
    using documents_context_is_first_20_matching_chunks
      [of spec_engine "[''doc1'']" spec_collection, THEN conjunct2, THEN conjunct1,
       rule_format, OF hs]
    by (simp only: spec_store_first_20)
  from a b e spec_store_matching c show ?thesis by (intro conjI)
qed

end
